theory Spec2Isabelle
  imports Complex_Main "HOL-Library.Word" "HOL-Library.AList"
begin

section \<open>SyncStream server (server/index.js): data model\<close>

text \<open>
  A JavaScript string is a sequence of UTF-16 code units; \<open>length\<close> counts code units,
  as \<^verbatim>\<open>text.length\<close> does. \<open>js\<close> writes an ASCII literal.
\<close>

type_synonym code_unit = "16 word"
type_synonym js_string = "code_unit list"

definition js :: "string \<Rightarrow> js_string" where
  "js s = map of_char s"

text \<open>\<^verbatim>\<open>!s\<close> for a string: only the empty string is falsy.\<close>

definition truthy :: "js_string \<Rightarrow> bool" where
  "truthy s = (s \<noteq> [])"

text \<open>\<^verbatim>\<open>!v\<close> for a value that may be undefined.\<close>

definition truthy_opt :: "js_string option \<Rightarrow> bool" where
  "truthy_opt v = (case v of None \<Rightarrow> False | Some s \<Rightarrow> truthy s)"

subsection \<open>Configuration (the \<^verbatim>\<open>config.room\<close> object)\<close>

definition maxParticipants :: nat where
  "maxParticipants = 50"

definition idleTimeout :: int where
  "idleTimeout = 3600000"

definition codeLength :: nat where
  "codeLength = 6"

subsection \<open>Redis values\<close>

text \<open>
  The hash \<^verbatim>\<open>room:{roomId}\<close>, after the Room Schema comment of the source. HMSET writes only
  the fields it is given, so every field may be absent (\<open>None\<close>). Redis keeps each field as
  a string; the model keeps a timestamp as the integer, the flag \<^verbatim>\<open>'true'\<close>/\<^verbatim>\<open>'false'\<close> as the
  boolean and the playback position as the number that \<^verbatim>\<open>toString\<close> printed.
\<close>

record room_hash =
  h_id :: "js_string option"
  h_name :: "js_string option"
  h_hostId :: "js_string option"
  h_createdAt :: "int option"
  h_mediaType :: "js_string option"
  h_mediaUrl :: "js_string option"
  h_isPlaying :: "bool option"
  h_currentTime :: "real option"
  h_lastSync :: "int option"

text \<open>
  The hash \<^verbatim>\<open>user:{roomId}:{userId}\<close>, after the User Schema comment. The source writes a user
  hash only whole (the six fields in one HMSET), except for the HSET of \<^verbatim>\<open>isHost\<close> on a
  participant it has just read from the listing; so a stored user hash is a whole record.
\<close>

record user_hash =
  u_id :: js_string
  u_name :: js_string
  u_avatar :: "js_string option"
  u_socketId :: js_string
  u_joinedAt :: int
  u_isHost :: bool

text \<open>
  The user object of a join payload, which the connection keeps as \<^verbatim>\<open>currentUser\<close>.
  \<^verbatim>\<open>join_room\<close> adds \<^verbatim>\<open>socketId\<close> and \<^verbatim>\<open>joinedAt\<close> and overwrites \<^verbatim>\<open>isHost\<close>.
\<close>

record user_obj =
  o_id :: js_string
  o_name :: js_string
  o_avatar :: "js_string option"
  o_isHost :: bool
  o_socketId :: "js_string option"
  o_joinedAt :: "int option"

text \<open>
  An entry of the list \<^verbatim>\<open>room:{roomId}:messages\<close>: the user message built by
  \<^verbatim>\<open>chat_message\<close> (id, userId, userName, userAvatar, text, timestamp), a system message
  (id, text, timestamp), or the object a client sent with \<^verbatim>\<open>chat:message\<close>, stored as it
  came (id, userName, text, timestamp).
\<close>

datatype chat_message =
    UserMessage js_string js_string js_string "js_string option" js_string int
  | SystemMessage js_string js_string int
  | ClientMessage js_string js_string js_string int

text \<open>What \<^verbatim>\<open>getRoomData\<close> returns: the hash with its fields parsed.\<close>

record room =
  r_id :: js_string
  r_name :: "js_string option"
  r_hostId :: "js_string option"
  r_createdAt :: "int option"
  r_mediaType :: "js_string option"
  r_mediaUrl :: "js_string option"
  r_isPlaying :: bool
  r_currentTime :: real
  r_lastSync :: "int option"

subsection \<open>Socket.io emissions\<close>

text \<open>
  \<open>ToSocket s\<close> is \<^verbatim>\<open>socket.emit\<close> on the socket \<open>s\<close>; \<open>ToRoomExcept r s\<close> is
  \<^verbatim>\<open>socket.to(r).emit\<close> on the socket \<open>s\<close> (everyone in the room but \<open>s\<close>); \<open>ToRoom r\<close> is
  \<^verbatim>\<open>io.to(r).emit\<close> (everyone in the room).
\<close>

datatype target =
    ToSocket js_string
  | ToRoomExcept js_string js_string
  | ToRoom js_string

datatype event =
    Ev_error string
  | Ev_room_joined room "user_hash list" "chat_message list" bool
  | Ev_participant_joined user_obj
  | Ev_participant_left js_string js_string
  | Ev_host_changed js_string js_string
  | Ev_media_changed "js_string option" "js_string option" js_string int
  | Ev_chat_message chat_message
  | Ev_playback_sync bool real js_string int
  | Ev_seek_sync real js_string int
  | Ev_sync_play real
  | Ev_sync_pause real
  | Ev_sync_seek real
  | Ev_room_users "user_hash list"
  | Ev_media_change js_string js_string
  | Ev_room_user_joined user_obj
  | Ev_chat_relay chat_message

subsection \<open>The state\<close>

text \<open>The two variables each connection handler closes over.\<close>

record conn =
  currentRoom :: "js_string option"
  currentUser :: "user_obj option"

text \<open>
  The Redis store, the socket.io rooms, the connections and the events emitted so far.
  The values are kept per kind and by the ids their keys are built from: the room hashes
  (\<open>rooms\<close>, an association list, whose keys are what \<^verbatim>\<open>KEYS room:*\<close> finds and the pattern
  of the sweep keeps), the membership sets (\<open>participants\<close>, each a list in the order
  SMEMBERS returns it), the user hashes and the message lists. \<open>ttl\<close> records the time to
  live that EXPIRE arms; no time passes between two events, so no key expires.

  The key strings of two kinds coincide only when a room id contains \<^verbatim>\<open>:\<close> (the key
  \<^verbatim>\<open>room:X:messages\<close> is the list of the room \<^verbatim>\<open>X\<close> and the hash of the room
  \<^verbatim>\<open>X:messages\<close>). DEL is modelled on the key string and removes what any kind holds under
  it (\<open>del_key\<close>). Every other command reads and writes the value of its own kind, as it
  does in Redis as long as no key holds a value of another kind, where Redis would answer
  WRONGTYPE.
\<close>

record world =
  rooms :: "(js_string \<times> room_hash) list"
  ttl :: "js_string \<Rightarrow> int option"
  participants :: "js_string \<Rightarrow> js_string list"
  users :: "js_string \<times> js_string \<Rightarrow> user_hash option"
  messages :: "js_string \<Rightarrow> chat_message list"
  socket_rooms :: "js_string \<Rightarrow> js_string list"
  conns :: "js_string \<Rightarrow> conn"
  outbox :: "(target \<times> event) list"

text \<open>Each user hash is stored under the id it holds, as the two join handlers write it.\<close>

definition keyed :: "world \<Rightarrow> bool" where
  "keyed w = (\<forall>r k h. users w (r, k) = Some h \<longrightarrow> u_id h = k)"

definition empty_hash :: room_hash where
  "empty_hash = \<lparr>h_id = None, h_name = None, h_hostId = None, h_createdAt = None,
     h_mediaType = None, h_mediaUrl = None, h_isPlaying = None, h_currentTime = None,
     h_lastSync = None\<rparr>"

definition unbound :: conn where
  "unbound = \<lparr>currentRoom = None, currentUser = None\<rparr>"

definition empty_world :: world where
  "empty_world = \<lparr>rooms = [], ttl = (\<lambda>_. None), participants = (\<lambda>_. []),
     users = (\<lambda>_. None), messages = (\<lambda>_. []), socket_rooms = (\<lambda>_. []),
     conns = (\<lambda>_. unbound), outbox = []\<rparr>"

section \<open>Redis commands\<close>

definition redis_exists :: "world \<Rightarrow> js_string \<Rightarrow> bool" where
  "redis_exists w roomId = (map_of (rooms w) roomId \<noteq> None)"

definition hgetall_room :: "world \<Rightarrow> js_string \<Rightarrow> room_hash" where
  "hgetall_room w roomId =
     (case map_of (rooms w) roomId of None \<Rightarrow> empty_hash | Some h \<Rightarrow> h)"

definition pick :: "'a option \<Rightarrow> 'a option \<Rightarrow> 'a option" where
  "pick new old = (case new of None \<Rightarrow> old | Some v \<Rightarrow> Some v)"

text \<open>One HMSET: the fields of \<open>upd\<close> that are given replace those of \<open>old\<close>.\<close>

definition hmset_fields :: "room_hash \<Rightarrow> room_hash \<Rightarrow> room_hash" where
  "hmset_fields upd old =
     \<lparr>h_id = pick (h_id upd) (h_id old),
      h_name = pick (h_name upd) (h_name old),
      h_hostId = pick (h_hostId upd) (h_hostId old),
      h_createdAt = pick (h_createdAt upd) (h_createdAt old),
      h_mediaType = pick (h_mediaType upd) (h_mediaType old),
      h_mediaUrl = pick (h_mediaUrl upd) (h_mediaUrl old),
      h_isPlaying = pick (h_isPlaying upd) (h_isPlaying old),
      h_currentTime = pick (h_currentTime upd) (h_currentTime old),
      h_lastSync = pick (h_lastSync upd) (h_lastSync old)\<rparr>"

definition hmset_room :: "js_string \<Rightarrow> room_hash \<Rightarrow> world \<Rightarrow> world" where
  "hmset_room roomId upd w =
     w\<lparr>rooms := AList.update roomId (hmset_fields upd (hgetall_room w roomId)) (rooms w)\<rparr>"

text \<open>EXPIRE arms the time to live of an existing key and does nothing for a missing one.\<close>

definition expire :: "js_string \<Rightarrow> int \<Rightarrow> world \<Rightarrow> world" where
  "expire roomId seconds w =
     (if redis_exists w roomId then w\<lparr>ttl := (ttl w)(roomId \<mapsto> seconds)\<rparr> else w)"

text \<open>The key strings that the template literals of the source build.\<close>

definition room_key :: "js_string \<Rightarrow> js_string" where
  "room_key roomId = js ''room:'' @ roomId"

definition participants_key :: "js_string \<Rightarrow> js_string" where
  "participants_key roomId = js ''room:'' @ roomId @ js '':participants''"

definition messages_key :: "js_string \<Rightarrow> js_string" where
  "messages_key roomId = js ''room:'' @ roomId @ js '':messages''"

definition user_key :: "js_string \<Rightarrow> js_string \<Rightarrow> js_string" where
  "user_key roomId odaId = js ''user:'' @ roomId @ js '':'' @ odaId"

text \<open>\<^verbatim>\<open>redis.del(key)\<close> removes the key, whatever kind of value it holds.\<close>

definition del_key :: "js_string \<Rightarrow> world \<Rightarrow> world" where
  "del_key key w =
     w\<lparr>rooms := filter (\<lambda>(roomId, h). room_key roomId \<noteq> key) (rooms w),
       ttl := (\<lambda>roomId. if room_key roomId = key then None else ttl w roomId),
       participants :=
         (\<lambda>roomId. if participants_key roomId = key then [] else participants w roomId),
       users :=
         (\<lambda>(roomId, odaId). if user_key roomId odaId = key then None
                           else users w (roomId, odaId)),
       messages := (\<lambda>roomId. if messages_key roomId = key then [] else messages w roomId)\<rparr>"

definition del_room :: "js_string \<Rightarrow> world \<Rightarrow> world" where
  "del_room roomId w = del_key (room_key roomId) w"

definition smembers :: "world \<Rightarrow> js_string \<Rightarrow> js_string list" where
  "smembers w roomId = remdups (participants w roomId)"

definition scard :: "world \<Rightarrow> js_string \<Rightarrow> nat" where
  "scard w roomId = length (smembers w roomId)"

definition sadd :: "js_string \<Rightarrow> js_string \<Rightarrow> world \<Rightarrow> world" where
  "sadd roomId member w =
     (if member \<in> set (participants w roomId) then w
      else w\<lparr>participants := (participants w)(roomId := participants w roomId @ [member])\<rparr>)"

definition srem :: "js_string \<Rightarrow> js_string \<Rightarrow> world \<Rightarrow> world" where
  "srem roomId member w =
     w\<lparr>participants := (participants w)(roomId := removeAll member (participants w roomId))\<rparr>"

definition del_participants :: "js_string \<Rightarrow> world \<Rightarrow> world" where
  "del_participants roomId w = del_key (participants_key roomId) w"

definition hmset_user :: "js_string \<Rightarrow> js_string \<Rightarrow> user_hash \<Rightarrow> world \<Rightarrow> world" where
  "hmset_user roomId userId h w = w\<lparr>users := (users w)((roomId, userId) \<mapsto> h)\<rparr>"

text \<open>
  \<^verbatim>\<open>redis.hset(`user:...`, 'isHost', 'true')\<close>. The source calls it only for a participant
  of the listing, whose hash exists.
\<close>

definition hset_user_isHost :: "js_string \<Rightarrow> js_string \<Rightarrow> world \<Rightarrow> world" where
  "hset_user_isHost roomId userId w =
     w\<lparr>users := (users w)((roomId, userId) :=
          map_option (\<lambda>h. h\<lparr>u_isHost := True\<rparr>) (users w (roomId, userId)))\<rparr>"

definition del_user :: "js_string \<Rightarrow> js_string \<Rightarrow> world \<Rightarrow> world" where
  "del_user roomId userId w = del_key (user_key roomId userId) w"

definition rpush :: "js_string \<Rightarrow> chat_message \<Rightarrow> world \<Rightarrow> world" where
  "rpush roomId m w = w\<lparr>messages := (messages w)(roomId := messages w roomId @ [m])\<rparr>"

text \<open>\<^verbatim>\<open>LTRIM key -n -1\<close> keeps the last \<open>n\<close> entries; \<^verbatim>\<open>LRANGE key -n -1\<close> reads them.\<close>

definition last_n :: "nat \<Rightarrow> 'a list \<Rightarrow> 'a list" where
  "last_n n xs = drop (length xs - n) xs"

definition ltrim :: "js_string \<Rightarrow> nat \<Rightarrow> world \<Rightarrow> world" where
  "ltrim roomId n w = w\<lparr>messages := (messages w)(roomId := last_n n (messages w roomId))\<rparr>"

definition lrange :: "world \<Rightarrow> js_string \<Rightarrow> nat \<Rightarrow> chat_message list" where
  "lrange w roomId n = last_n n (messages w roomId)"

definition del_messages :: "js_string \<Rightarrow> world \<Rightarrow> world" where
  "del_messages roomId w = del_key (messages_key roomId) w"

section \<open>Socket.io primitives\<close>

definition socket_join :: "js_string \<Rightarrow> js_string \<Rightarrow> world \<Rightarrow> world" where
  "socket_join sid roomId w =
     (if sid \<in> set (socket_rooms w roomId) then w
      else w\<lparr>socket_rooms := (socket_rooms w)(roomId := socket_rooms w roomId @ [sid])\<rparr>)"

definition socket_leave :: "js_string \<Rightarrow> js_string \<Rightarrow> world \<Rightarrow> world" where
  "socket_leave sid roomId w =
     w\<lparr>socket_rooms := (socket_rooms w)(roomId := removeAll sid (socket_rooms w roomId))\<rparr>"

definition emit :: "target \<Rightarrow> event \<Rightarrow> world \<Rightarrow> world" where
  "emit tgt ev w = w\<lparr>outbox := outbox w @ [(tgt, ev)]\<rparr>"

text \<open>The sockets an emission reaches.\<close>

fun recipients :: "world \<Rightarrow> target \<Rightarrow> js_string list" where
  "recipients w (ToSocket sid) = [sid]"
| "recipients w (ToRoomExcept roomId sid) = removeAll sid (socket_rooms w roomId)"
| "recipients w (ToRoom roomId) = socket_rooms w roomId"

definition set_conn :: "js_string \<Rightarrow> conn \<Rightarrow> world \<Rightarrow> world" where
  "set_conn sid c w = w\<lparr>conns := (conns w)(sid := c)\<rparr>"

text \<open>
  The guard \<^verbatim>\<open>if (!currentRoom || !currentUser) return\<close>: the room id and the user the
  handler goes on with, when there are both.
\<close>

definition bound_to :: "world \<Rightarrow> js_string \<Rightarrow> (js_string \<times> user_obj) option" where
  "bound_to w sid =
     (case currentRoom (conns w sid) of
        None \<Rightarrow> None
      | Some roomId \<Rightarrow>
          (if \<not> truthy roomId then None
           else (case currentUser (conns w sid) of
                   None \<Rightarrow> None
                 | Some user \<Rightarrow> Some (roomId, user))))"

text \<open>The guard \<^verbatim>\<open>if (!currentRoom) return\<close> of the namespaced handlers.\<close>

definition in_room :: "world \<Rightarrow> js_string \<Rightarrow> bool" where
  "in_room w sid = truthy_opt (currentRoom (conns w sid))"

section \<open>Utility functions\<close>

text \<open>
  \<^verbatim>\<open>generateRoomCode\<close>: \<open>rnd i\<close> is \<^verbatim>\<open>Math.floor(Math.random() * chars.length)\<close> of the
  \<open>i\<close>-th round of the loop, a number below 32.
\<close>

definition chars :: js_string where
  "chars = js ''ABCDEFGHJKLMNPQRSTUVWXYZ23456789''"

definition generateRoomCode :: "(nat \<Rightarrow> nat) \<Rightarrow> js_string" where
  "generateRoomCode rnd = map (\<lambda>i. chars ! (rnd i mod length chars)) [0..<codeLength]"

definition getRoomData :: "world \<Rightarrow> js_string \<Rightarrow> room option" where
  "getRoomData w roomId =
     (let roomData = hgetall_room w roomId in
      case h_id roomData of
        None \<Rightarrow> None
      | Some i \<Rightarrow>
          if \<not> truthy i then None
          else Some \<lparr>r_id = i, r_name = h_name roomData, r_hostId = h_hostId roomData,
                 r_createdAt = h_createdAt roomData,
                 r_mediaType = h_mediaType roomData, r_mediaUrl = h_mediaUrl roomData,
                 r_isPlaying = (h_isPlaying roomData = Some True),
                 r_currentTime = (case h_currentTime roomData of None \<Rightarrow> 0 | Some t \<Rightarrow> t),
                 r_lastSync = h_lastSync roomData\<rparr>)"

text \<open>
  \<^verbatim>\<open>getRoomParticipants\<close>: the user hash of each member, where it exists and has an id,
  sorted by \<^verbatim>\<open>joinedAt\<close> (\<^verbatim>\<open>Array.prototype.sort\<close> is stable, as \<open>sort_key\<close> is).
\<close>

definition userData_of :: "world \<Rightarrow> js_string \<Rightarrow> js_string \<Rightarrow> user_hash option" where
  "userData_of w roomId odaId =
     (case users w (roomId, odaId) of
        None \<Rightarrow> None
      | Some userData \<Rightarrow> if truthy (u_id userData) then Some userData else None)"

definition getRoomParticipants :: "world \<Rightarrow> js_string \<Rightarrow> user_hash list" where
  "getRoomParticipants w roomId =
     sort_key u_joinedAt (List.map_filter (userData_of w roomId) (smembers w roomId))"

definition deleteRoom :: "js_string \<Rightarrow> world \<Rightarrow> world" where
  "deleteRoom roomId w =
     (let participantIds = smembers w roomId;
          w1 = fold (del_user roomId) participantIds w;
          w2 = del_room roomId w1;
          w3 = del_participants roomId w2
      in del_messages roomId w3)"

section \<open>REST API endpoints\<close>

datatype body =
    B_error string
  | B_created js_string js_string int
  | B_room room nat
  | B_invalid
  | B_valid nat bool

text \<open>A response: the status code and the JSON body.\<close>

datatype response = Response nat body

definition get_room :: "js_string \<Rightarrow> world \<Rightarrow> response" where
  "get_room roomId w =
     (case getRoomData w roomId of
        None \<Rightarrow> Response 404 (B_error ''Room not found'')
      | Some room \<Rightarrow>
          (let participants = getRoomParticipants w roomId
           in Response 200 (B_room room (length participants))))"

definition validate_room :: "js_string \<Rightarrow> world \<Rightarrow> response" where
  "validate_room roomId w =
     (if \<not> redis_exists w roomId then Response 404 B_invalid
      else (let participants = scard w roomId
            in Response 200 (B_valid participants (participants \<ge> maxParticipants))))"

subsection \<open>POST /api/room/create\<close>

record create_body =
  b_userId :: "js_string option"
  b_userName :: "js_string option"
  b_userAvatar :: "js_string option"

datatype js_error = ReferenceError string | TypeError

text \<open>
  Reading an identifier: its binding in the enclosing scopes, or a ReferenceError when no
  scope declares it.
\<close>

definition lookup_ident :: "(string \<times> 'a) list \<Rightarrow> string \<Rightarrow> js_error + 'a" where
  "lookup_ident scope x =
     (case map_of scope x of None \<Rightarrow> Inl (ReferenceError x) | Some v \<Rightarrow> Inr v)"

text \<open>The names declared at the top level of the module, and the globals it uses.\<close>

definition module_scope :: "string list" where
  "module_scope =
     [''express'', ''http'', ''Server'', ''Redis'', ''cors'', ''helmet'', ''rateLimit'',
      ''uuidv4'', ''config'', ''app'', ''server'', ''redis'', ''redisPub'', ''redisSub'',
      ''io'', ''limiter'', ''generateRoomCode'', ''getRoomData'', ''getRoomParticipants'',
      ''deleteRoom'', ''require'', ''module'', ''process'', ''console'', ''Date'', ''Math'',
      ''JSON'', ''Set'', ''parseInt'', ''parseFloat'', ''setInterval'']"

text \<open>
  The scope of the handler where it builds the room record: its parameters and locals,
  then the module. An identifier is bound to \<open>Some s\<close> when it holds the string \<open>s\<close> and to
  \<open>None\<close> when it holds something else.
\<close>

definition create_scope :: "create_body \<Rightarrow> js_string \<Rightarrow> (string \<times> js_string option) list" where
  "create_scope body roomId =
     [(''req'', None), (''res'', None),
      (''userId'', b_userId body), (''userName'', b_userName body),
      (''userAvatar'', b_userAvatar body),
      (''roomId'', Some roomId), (''attempts'', None), (''now'', None)]
     @ map (\<lambda>n. (n, None)) module_scope"

text \<open>
  The loop that draws a room code: \<open>rnd a\<close> feeds the \<open>a\<close>-th call of
  \<^verbatim>\<open>generateRoomCode\<close>. It returns the last code drawn and \<^verbatim>\<open>attempts\<close>.
\<close>

function create_loop :: "world \<Rightarrow> (nat \<Rightarrow> nat \<Rightarrow> nat) \<Rightarrow> nat \<Rightarrow> js_string \<times> nat" where
  "create_loop w rnd attempts =
     (let roomId = generateRoomCode (rnd attempts) in
      if \<not> redis_exists w roomId then (roomId, attempts)
      else if attempts + 1 < 10 then create_loop w rnd (attempts + 1)
      else (roomId, attempts + 1))"
  by pat_completeness auto
termination
  by (relation "measure (\<lambda>(w, rnd, attempts). 10 - attempts)") auto

text \<open>The room name of the template literal: the user name, then the suffix (apostrophe,
  dotless i U+0131, \<^verbatim>\<open>n Odas\<close>, U+0131).\<close>

definition room_name :: "js_string \<Rightarrow> js_string" where
  "room_name userName = userName @ [39, 305, 110, 32, 79, 100, 97, 115, 305]"

definition api_room_create ::
  "create_body \<Rightarrow> (nat \<Rightarrow> nat \<Rightarrow> nat) \<Rightarrow> int \<Rightarrow> world \<Rightarrow> response \<times> world" where
  "api_room_create body rnd now w =
     (case (b_userId body, b_userName body) of
        (Some userId, Some userName) \<Rightarrow>
          if \<not> truthy userId \<or> \<not> truthy userName
          then (Response 400 (B_error ''Missing required fields''), w)
          else
            (case create_loop w rnd 0 of
               (roomId, attempts) \<Rightarrow>
                 if attempts \<ge> 10
                 then (Response 500 (B_error ''Could not generate room code''), w)
                 else
                   (case lookup_ident (create_scope body roomId) ''odaId'' of
                      Inl error \<Rightarrow> (Response 500 (B_error ''Internal server error''), w)
                    | Inr hostId \<Rightarrow>
                        (let w1 = hmset_room roomId
                                    \<lparr>h_id = Some roomId, h_name = Some (room_name userName),
                                     h_hostId = hostId, h_createdAt = Some now,
                                     h_mediaType = Some [], h_mediaUrl = Some [],
                                     h_isPlaying = Some False, h_currentTime = Some 0,
                                     h_lastSync = Some now\<rparr> w;
                             w2 = expire roomId (idleTimeout div 1000) w1
                         in (Response 200 (B_created roomId (room_name userName) now), w2))))
      | _ \<Rightarrow> (Response 400 (B_error ''Missing required fields''), w))"

section \<open>Socket.io event handlers\<close>

text \<open>
  A handler takes the id of the socket it runs for, the payload, what it reads from
  outside (\<^verbatim>\<open>Date.now()\<close>, read once, and \<^verbatim>\<open>uuidv4()\<close>) and the state. An exception
  leaves the \<^verbatim>\<open>try\<close> block for a \<^verbatim>\<open>catch\<close> that only logs, so the state is what the
  handler had written until then.
\<close>

record join_data =
  j_roomId :: js_string
  j_user :: "user_obj option"

definition clapper :: js_string where
  "clapper = [55356, 57260]"

definition user_record :: "user_obj \<Rightarrow> js_string option \<Rightarrow> js_string \<Rightarrow> int \<Rightarrow> bool \<Rightarrow> user_hash" where
  "user_record user avatar sid joinedAt isHost =
     \<lparr>u_id = o_id user, u_name = o_name user, u_avatar = avatar, u_socketId = sid,
      u_joinedAt = joinedAt, u_isHost = isHost\<rparr>"

subsection \<open>\<^verbatim>\<open>join_room\<close>\<close>

definition on_join_room :: "js_string \<Rightarrow> join_data \<Rightarrow> int \<Rightarrow> world \<Rightarrow> world" where
  "on_join_room sid data now w =
     (let roomId = j_roomId data in
      case j_user data of
        None \<Rightarrow> emit (ToSocket sid) (Ev_error ''Invalid join request'') w
      | Some user \<Rightarrow>
          if \<not> truthy roomId \<or> \<not> truthy (o_id user) \<or> \<not> truthy (o_name user)
          then emit (ToSocket sid) (Ev_error ''Invalid join request'') w
          else
            (case getRoomData w roomId of
               None \<Rightarrow> emit (ToSocket sid) (Ev_error ''Room not found'') w
             | Some room \<Rightarrow>
                 (let participantCount = scard w roomId in
                  if participantCount \<ge> maxParticipants
                  then emit (ToSocket sid) (Ev_error ''Room is full'') w
                  else
                    (let user' = user\<lparr>o_socketId := Some sid, o_joinedAt := Some now,
                                   o_isHost := (r_hostId room = Some (o_id user))\<rparr>;
                         w1 = set_conn sid \<lparr>currentRoom = Some roomId, currentUser = Some user'\<rparr> w;
                         w2 = hmset_user roomId (o_id user)
                                (user_record user
                                   (if truthy_opt (o_avatar user) then o_avatar user else Some clapper)
                                   sid now (o_isHost user')) w1;
                         w3 = sadd roomId (o_id user) w2;
                         w4 = socket_join sid roomId w3;
                         participants = getRoomParticipants w4 roomId;
                         parsedMessages = lrange w4 roomId 50;
                         w5 = emit (ToSocket sid)
                                (Ev_room_joined room participants parsedMessages (o_isHost user')) w4;
                         w6 = emit (ToRoomExcept roomId sid) (Ev_participant_joined user') w5
                     in expire roomId (idleTimeout div 1000) w6))))"

subsection \<open>\<^verbatim>\<open>room:join\<close>\<close>

text \<open>The room record \<^verbatim>\<open>room:join\<close> writes when the room does not exist.\<close>

definition fields_room_join :: "js_string \<Rightarrow> user_obj \<Rightarrow> int \<Rightarrow> room_hash" where
  "fields_room_join roomId user now =
     \<lparr>h_id = Some roomId,
      h_name = Some (if o_isHost user then room_name (o_name user) else js ''Watch Party''),
      h_hostId = Some (if o_isHost user then o_id user else []),
      h_createdAt = Some now, h_mediaType = Some [], h_mediaUrl = Some [],
      h_isPlaying = Some False, h_currentTime = Some 0, h_lastSync = Some now\<rparr>"

text \<open>
  Without a user object the handler stops at the first read of \<^verbatim>\<open>user.isHost\<close> or
  \<^verbatim>\<open>user.id\<close> (a TypeError), after it has set its two variables and joined the socket room.
\<close>

definition on_room_join :: "js_string \<Rightarrow> join_data \<Rightarrow> int \<Rightarrow> world \<Rightarrow> world" where
  "on_room_join sid data now w =
     (let roomId = j_roomId data;
          w1 = set_conn sid \<lparr>currentRoom = Some roomId, currentUser = j_user data\<rparr> w;
          w2 = socket_join sid roomId w1
      in case j_user data of
           None \<Rightarrow> w2
         | Some user \<Rightarrow>
             (let w3 = (if \<not> redis_exists w2 roomId
                        then hmset_room roomId (fields_room_join roomId user now) w2
                        else w2);
                  w4 = sadd roomId (o_id user) w3;
                  w5 = hmset_user roomId (o_id user)
                         (user_record user (o_avatar user) sid now (o_isHost user)) w4;
                  participants = getRoomParticipants w5 roomId;
                  room = getRoomData w5 roomId;
                  w6 = emit (ToSocket sid) (Ev_room_users participants) w5;
                  w7 = (case room of
                          None \<Rightarrow> w6
                        | Some rm \<Rightarrow>
                            (case r_mediaUrl rm of
                               None \<Rightarrow> w6
                             | Some mediaUrl \<Rightarrow>
                                 if truthy mediaUrl
                                 then emit (ToSocket sid)
                                        (Ev_media_change
                                           (case r_mediaType rm of None \<Rightarrow> [] | Some t \<Rightarrow> t)
                                           mediaUrl) w6
                                 else w6))
              in emit (ToRoomExcept roomId sid) (Ev_room_user_joined user) w7))"

subsection \<open>\<^verbatim>\<open>handleLeaveRoom\<close> (\<^verbatim>\<open>leave_room\<close>, \<^verbatim>\<open>room:leave\<close>, \<^verbatim>\<open>disconnect\<close>)\<close>

text \<open>The text of the system message of a leave: the user name, then \<^verbatim>\<open> odadan ayr\<close>,
  U+0131, \<^verbatim>\<open>ld\<close>, U+0131.\<close>

definition left_text :: "js_string \<Rightarrow> js_string" where
  "left_text name = name @ js '' odadan ayr'' @ [305] @ js ''ld'' @ [305]"

text \<open>The host re-election, run when the room still has members.\<close>

definition assign_new_host :: "js_string \<Rightarrow> user_obj \<Rightarrow> world \<Rightarrow> world" where
  "assign_new_host roomId user w =
     (case getRoomData w roomId of
        None \<Rightarrow> w
      | Some room \<Rightarrow>
          if r_hostId room = Some (o_id user)
          then (case getRoomParticipants w roomId of
                  [] \<Rightarrow> w
                | newHost # _ \<Rightarrow>
                    (let w1 = hmset_room roomId (empty_hash\<lparr>h_hostId := Some (u_id newHost)\<rparr>) w;
                         w2 = hset_user_isHost roomId (u_id newHost) w1
                     in emit (ToRoom roomId)
                          (Ev_host_changed (u_id newHost) (u_name newHost)) w2))
          else w)"

definition handleLeaveRoom :: "js_string \<Rightarrow> js_string \<Rightarrow> int \<Rightarrow> world \<Rightarrow> world" where
  "handleLeaveRoom sid uuid now w =
     (case bound_to w sid of
        None \<Rightarrow> w
      | Some (roomId, user) \<Rightarrow>
          (let w1 = srem roomId (o_id user) w;
               w2 = del_user roomId (o_id user) w1;
               w3 = socket_leave sid roomId w2;
               remainingCount = scard w3 roomId;
               w4 = (if remainingCount = 0 then deleteRoom roomId w3
                     else
                       (let w5 = emit (ToRoomExcept roomId sid)
                                   (Ev_participant_left (o_id user) (o_name user)) w3;
                            w6 = assign_new_host roomId user w5;
                            systemMessage = SystemMessage uuid (left_text (o_name user)) now;
                            w7 = rpush roomId systemMessage w6
                        in emit (ToRoom roomId) (Ev_chat_message systemMessage) w7))
           in set_conn sid unbound w4))"

subsection \<open>Media change: \<^verbatim>\<open>media_change\<close> and \<^verbatim>\<open>media:change\<close>\<close>

record media_data =
  md_mediaType :: "js_string option"
  md_mediaUrl :: "js_string option"

text \<open>\<^verbatim>\<open>v || ''\<close>\<close>

definition or_empty :: "js_string option \<Rightarrow> js_string" where
  "or_empty v = (case v of None \<Rightarrow> [] | Some s \<Rightarrow> s)"

text \<open>The text of the system message of a media change: the user name, then
  \<^verbatim>\<open> yeni medya y\<close>, U+00FC, \<^verbatim>\<open>kledi\<close>.\<close>

definition media_text :: "js_string \<Rightarrow> js_string" where
  "media_text name = name @ js '' yeni medya y'' @ [252] @ js ''kledi''"

definition fields_media_change :: "media_data \<Rightarrow> int \<Rightarrow> room_hash" where
  "fields_media_change data now =
     empty_hash\<lparr>h_mediaType := Some (or_empty (md_mediaType data)),
                h_mediaUrl := Some (or_empty (md_mediaUrl data)),
                h_isPlaying := Some False, h_currentTime := Some 0, h_lastSync := Some now\<rparr>"

definition on_media_change :: "js_string \<Rightarrow> media_data \<Rightarrow> js_string \<Rightarrow> int \<Rightarrow> world \<Rightarrow> world" where
  "on_media_change sid data uuid now w =
     (case bound_to w sid of
        None \<Rightarrow> w
      | Some (roomId, user) \<Rightarrow>
          (let w1 = hmset_room roomId (fields_media_change data now) w;
               w2 = emit (ToRoom roomId)
                      (Ev_media_changed (md_mediaType data) (md_mediaUrl data) (o_name user) now) w1;
               systemMessage = SystemMessage uuid (media_text (o_name user)) now;
               w3 = rpush roomId systemMessage w2
           in emit (ToRoom roomId) (Ev_chat_message systemMessage) w3))"

record ns_media_data =
  nm_roomId :: js_string
  nm_mediaType :: js_string
  nm_mediaUrl :: js_string

definition fields_ns_media_change :: "ns_media_data \<Rightarrow> room_hash" where
  "fields_ns_media_change data =
     empty_hash\<lparr>h_mediaType := Some (nm_mediaType data), h_mediaUrl := Some (nm_mediaUrl data),
                h_currentTime := Some 0, h_isPlaying := Some False\<rparr>"

definition on_ns_media_change :: "js_string \<Rightarrow> ns_media_data \<Rightarrow> world \<Rightarrow> world" where
  "on_ns_media_change sid data w =
     (if \<not> in_room w sid then w
      else
        (let roomId = nm_roomId data;
             w1 = hmset_room roomId (fields_ns_media_change data) w
         in emit (ToRoomExcept roomId sid)
              (Ev_media_change (nm_mediaType data) (nm_mediaUrl data)) w1))"

subsection \<open>Playback: \<^verbatim>\<open>playback_state\<close>, \<^verbatim>\<open>seek\<close>, \<^verbatim>\<open>sync:play\<close>, \<^verbatim>\<open>sync:pause\<close>, \<^verbatim>\<open>sync:seek\<close>\<close>

text \<open>
  The position of a payload may be missing; \<^verbatim>\<open>toString\<close> on it then throws while the
  handler builds the argument of HMSET, and nothing is written or emitted.
\<close>

definition fields_playback_state :: "bool \<Rightarrow> real \<Rightarrow> int \<Rightarrow> room_hash" where
  "fields_playback_state isPlaying t now =
     empty_hash\<lparr>h_isPlaying := Some isPlaying, h_currentTime := Some t, h_lastSync := Some now\<rparr>"

definition on_playback_state :: "js_string \<Rightarrow> bool \<Rightarrow> real option \<Rightarrow> int \<Rightarrow> world \<Rightarrow> world" where
  "on_playback_state sid isPlaying currentTime' now w =
     (case bound_to w sid of
        None \<Rightarrow> w
      | Some (roomId, user) \<Rightarrow>
          (case currentTime' of
             None \<Rightarrow> w
           | Some t \<Rightarrow>
               (let w1 = hmset_room roomId (fields_playback_state isPlaying t now) w
                in emit (ToRoom roomId) (Ev_playback_sync isPlaying t (o_name user) now) w1)))"

definition fields_seek :: "real \<Rightarrow> int \<Rightarrow> room_hash" where
  "fields_seek t now = empty_hash\<lparr>h_currentTime := Some t, h_lastSync := Some now\<rparr>"

definition on_seek :: "js_string \<Rightarrow> real option \<Rightarrow> int \<Rightarrow> world \<Rightarrow> world" where
  "on_seek sid currentTime' now w =
     (case bound_to w sid of
        None \<Rightarrow> w
      | Some (roomId, user) \<Rightarrow>
          (case currentTime' of
             None \<Rightarrow> w
           | Some t \<Rightarrow>
               (let w1 = hmset_room roomId (fields_seek t now) w
                in emit (ToRoom roomId) (Ev_seek_sync t (o_name user) now) w1)))"

definition on_sync_play :: "js_string \<Rightarrow> real option \<Rightarrow> int \<Rightarrow> world \<Rightarrow> world" where
  "on_sync_play sid time now w =
     (case bound_to w sid of
        None \<Rightarrow> w
      | Some (roomId, user) \<Rightarrow>
          (case time of
             None \<Rightarrow> w
           | Some t \<Rightarrow>
               (let w1 = hmset_room roomId (fields_playback_state True t now) w
                in emit (ToRoomExcept roomId sid) (Ev_sync_play t) w1)))"

definition on_sync_pause :: "js_string \<Rightarrow> real option \<Rightarrow> int \<Rightarrow> world \<Rightarrow> world" where
  "on_sync_pause sid time now w =
     (case bound_to w sid of
        None \<Rightarrow> w
      | Some (roomId, user) \<Rightarrow>
          (case time of
             None \<Rightarrow> w
           | Some t \<Rightarrow>
               (let w1 = hmset_room roomId (fields_playback_state False t now) w
                in emit (ToRoomExcept roomId sid) (Ev_sync_pause t) w1)))"

definition on_sync_seek :: "js_string \<Rightarrow> real option \<Rightarrow> int \<Rightarrow> world \<Rightarrow> world" where
  "on_sync_seek sid time now w =
     (case bound_to w sid of
        None \<Rightarrow> w
      | Some (roomId, user) \<Rightarrow>
          (case time of
             None \<Rightarrow> w
           | Some t \<Rightarrow>
               (let w1 = hmset_room roomId (fields_seek t now) w
                in emit (ToRoomExcept roomId sid) (Ev_sync_seek t) w1)))"

subsection \<open>Chat: \<^verbatim>\<open>chat_message\<close> and \<^verbatim>\<open>chat:message\<close>\<close>

text \<open>
  \<^verbatim>\<open>String.prototype.trim\<close> removes the white space and line terminators of ECMAScript
  from both ends.
\<close>

definition is_js_space :: "code_unit \<Rightarrow> bool" where
  "is_js_space c =
     (c \<in> set [9, 10, 11, 12, 13, 32, 160, 5760, 8232, 8233, 8239, 8287, 12288, 65279]
      \<or> (8192 \<le> c \<and> c \<le> 8202))"

definition trim :: "js_string \<Rightarrow> js_string" where
  "trim s = rev (dropWhile is_js_space (rev (dropWhile is_js_space s)))"

definition on_chat_message ::
  "js_string \<Rightarrow> js_string option \<Rightarrow> js_string \<Rightarrow> int \<Rightarrow> world \<Rightarrow> world" where
  "on_chat_message sid text' uuid now w =
     (case bound_to w sid of
        None \<Rightarrow> w
      | Some (roomId, user) \<Rightarrow>
          (case text' of
             None \<Rightarrow> w
           | Some t \<Rightarrow>
               if \<not> truthy t \<or> length (trim t) = 0 then w
               else if length t > 500 then w
               else
                 (let message = UserMessage uuid (o_id user) (o_name user) (o_avatar user)
                                  (trim t) now;
                      w1 = rpush roomId message w;
                      w2 = ltrim roomId 100 w1
                  in emit (ToRoom roomId) (Ev_chat_message message) w2)))"

record ns_chat_data =
  nc_roomId :: js_string
  nc_message :: chat_message

definition on_ns_chat_message :: "js_string \<Rightarrow> ns_chat_data \<Rightarrow> world \<Rightarrow> world" where
  "on_ns_chat_message sid data w =
     (if \<not> in_room w sid then w
      else
        (let roomId = nc_roomId data;
             message = nc_message data;
             w1 = emit (ToRoomExcept roomId sid) (Ev_chat_relay message) w;
             w2 = rpush roomId message w1
         in ltrim roomId 100 w2))"

fun text_of :: "chat_message \<Rightarrow> js_string" where
  "text_of (UserMessage _ _ _ _ t _) = t"
| "text_of (SystemMessage _ t _) = t"
| "text_of (ClientMessage _ _ t _) = t"

section \<open>Cleanup task\<close>

text \<open>The key pattern \<^verbatim>\<open>/^room:([A-Z0-9]{6})$/\<close>, on the room id.\<close>

definition is_code_char :: "code_unit \<Rightarrow> bool" where
  "is_code_char c = ((65 \<le> c \<and> c \<le> 90) \<or> (48 \<le> c \<and> c \<le> 57))"

definition is_room_code :: "js_string \<Rightarrow> bool" where
  "is_room_code roomId = (length roomId = 6 \<and> list_all is_code_char roomId)"

text \<open>
  The body of the loop over the room ids, and the condition under which it deletes. The
  JavaScript Set of the ids is the list of the matching keys without repetition, so the
  loop visits each id once; \<open>clock roomId\<close> is what \<^verbatim>\<open>Date.now()\<close> returns in the round of
  \<open>roomId\<close>.
\<close>

definition stale :: "int \<Rightarrow> world \<Rightarrow> js_string \<Rightarrow> bool" where
  "stale now w roomId =
     (let participantCount = scard w roomId in
      case getRoomData w roomId of
        None \<Rightarrow> False
      | Some room \<Rightarrow>
          if participantCount = 0
          then (case r_createdAt room of
                  None \<Rightarrow> False
                | Some createdAt \<Rightarrow> (let age = now - createdAt in age > idleTimeout))
          else False)"

definition cleanup_room :: "int \<Rightarrow> js_string \<Rightarrow> world \<Rightarrow> world" where
  "cleanup_room now roomId w = (if stale now w roomId then deleteRoom roomId w else w)"

definition cleanup :: "(js_string \<Rightarrow> int) \<Rightarrow> world \<Rightarrow> world" where
  "cleanup clock w =
     (let keys = map fst (rooms w);
          roomIds = remdups (filter is_room_code keys)
      in fold (\<lambda>roomId. cleanup_room (clock roomId) roomId) roomIds w)"

text \<open>No room record has an id with a colon (the code unit 58).\<close>

definition colon_free :: "world \<Rightarrow> bool" where
  "colon_free w = list_all (\<lambda>(roomId, h). 58 \<notin> set roomId) (rooms w)"

section \<open>Sequences of events\<close>

datatype op =
    Join_room js_string join_data int
  | Room_join js_string join_data int
  | Leave js_string js_string int
  | Media_change js_string media_data js_string int
  | Ns_media_change js_string ns_media_data
  | Playback_state js_string bool "real option" int
  | Seek js_string "real option" int
  | Sync_play js_string "real option" int
  | Sync_pause js_string "real option" int
  | Sync_seek js_string "real option" int
  | Chat_message js_string "js_string option" js_string int
  | Ns_chat_message js_string ns_chat_data
  | Cleanup "js_string \<Rightarrow> int"

fun step :: "op \<Rightarrow> world \<Rightarrow> world" where
  "step (Join_room sid data now) w = on_join_room sid data now w"
| "step (Room_join sid data now) w = on_room_join sid data now w"
| "step (Leave sid uuid now) w = handleLeaveRoom sid uuid now w"
| "step (Media_change sid data uuid now) w = on_media_change sid data uuid now w"
| "step (Ns_media_change sid data) w = on_ns_media_change sid data w"
| "step (Playback_state sid isPlaying t now) w = on_playback_state sid isPlaying t now w"
| "step (Seek sid t now) w = on_seek sid t now w"
| "step (Sync_play sid t now) w = on_sync_play sid t now w"
| "step (Sync_pause sid t now) w = on_sync_pause sid t now w"
| "step (Sync_seek sid t now) w = on_sync_seek sid t now w"
| "step (Chat_message sid t uuid now) w = on_chat_message sid t uuid now w"
| "step (Ns_chat_message sid data) w = on_ns_chat_message sid data w"
| "step (Cleanup clock) w = cleanup clock w"

definition run :: "op list \<Rightarrow> world \<Rightarrow> world" where
  "run ops w = fold step ops w"

section \<open>Example states\<close>

fun status :: "response \<Rightarrow> nat" where
  "status (Response s b) = s"

definition rid :: js_string where
  "rid = js ''AB3XY9''"

definition alice_body :: create_body where
  "alice_body = \<lparr>b_userId = Some (js ''a''), b_userName = Some (js ''Alice''),
     b_userAvatar = None\<rparr>"

definition alice :: user_obj where
  "alice = \<lparr>o_id = js ''a'', o_name = js ''Alice'', o_avatar = None, o_isHost = True,
     o_socketId = None, o_joinedAt = None\<rparr>"

definition bob :: user_obj where
  "bob = \<lparr>o_id = js ''b'', o_name = js ''Bob'', o_avatar = None, o_isHost = False,
     o_socketId = None, o_joinedAt = None\<rparr>"


definition join_of :: "user_obj \<Rightarrow> join_data" where
  "join_of user = \<lparr>j_roomId = rid, j_user = Some user\<rparr>"

text \<open>Alice, then Bob, then Carol join the room \<open>rid\<close> with \<^verbatim>\<open>room:join\<close>.\<close>

definition joined_a :: world where
  "joined_a = on_room_join (js ''s1'') (join_of alice) 1000 empty_world"

definition joined_ab :: world where
  "joined_ab = on_room_join (js ''s2'') (join_of bob) 2000 joined_a"



text \<open>Bob alone, and Alice with Dave, who both say they are host.\<close>

definition dave :: user_obj where
  "dave = \<lparr>o_id = js ''d'', o_name = js ''Dave'', o_avatar = None, o_isHost = True,
     o_socketId = None, o_joinedAt = None\<rparr>"

definition joined_b :: world where
  "joined_b = run [Room_join (js ''s2'') (join_of bob) 2000] empty_world"

definition joined_ad :: world where
  "joined_ad = run [Room_join (js ''s1'') (join_of alice) 1000,
                    Room_join (js ''s4'') (join_of dave) 2000] empty_world"

text \<open>A user whose id is the empty string joins.\<close>

definition nobody :: user_obj where
  "nobody = \<lparr>o_id = [], o_name = js ''Nobody'', o_avatar = None, o_isHost = False,
     o_socketId = None, o_joinedAt = None\<rparr>"

definition joined_nobody :: world where
  "joined_nobody = on_room_join (js ''s9'') (join_of nobody) 1000 empty_world"

definition nobody_room :: room where
  "nobody_room = \<lparr>r_id = rid, r_name = Some (js ''Watch Party''), r_hostId = Some [],
     r_createdAt = Some 1000, r_mediaType = Some [], r_mediaUrl = Some [], r_isPlaying = False,
     r_currentTime = 0, r_lastSync = Some 1000\<rparr>"

text \<open>
  Fifty-one users: user \<open>n\<close> has \<open>n + 1\<close> letters \<^verbatim>\<open>u\<close> as id and joins the room \<open>rid\<close> with
  \<^verbatim>\<open>room:join\<close> from the socket of \<open>n + 1\<close> letters \<^verbatim>\<open>s\<close>.
\<close>

definition member :: "nat \<Rightarrow> user_obj" where
  "member n = \<lparr>o_id = replicate (Suc n) 117, o_name = js ''User'', o_avatar = None,
     o_isHost = (n = 0), o_socketId = None, o_joinedAt = None\<rparr>"

definition joins :: "nat \<Rightarrow> op list" where
  "joins n = map (\<lambda>i. Room_join (replicate (Suc i) 115) (join_of (member i)) (int i)) [0..<n]"

text \<open>Alice, alone in the room, changes the media \<open>n\<close> times with \<^verbatim>\<open>media_change\<close>.\<close>

definition video :: media_data where
  "video = \<lparr>md_mediaType = Some (js ''url''), md_mediaUrl = Some (js ''https://example.org/a.mp4'')\<rparr>"

definition changes :: "nat \<Rightarrow> op list" where
  "changes n = map (\<lambda>i. Media_change (js ''s1'') video (js ''m'') (int i)) [0..<n]"

text \<open>Two messages as a client may send them with \<^verbatim>\<open>chat:message\<close>: no text, and 501 letters.\<close>

definition empty_msg :: chat_message where
  "empty_msg = ClientMessage (js ''msg_1'') (js ''Alice'') [] 5000"

definition long_msg :: chat_message where
  "long_msg = ClientMessage (js ''msg_2'') (js ''Alice'') (replicate 501 120) 6000"

text \<open>Alice plays at 42 seconds, then changes the media with \<^verbatim>\<open>media:change\<close>.\<close>

definition played :: world where
  "played = on_sync_play (js ''s1'') (Some 42) 2000 joined_ab"

definition clip :: ns_media_data where
  "clip = \<lparr>nm_roomId = rid, nm_mediaType = js ''url'', nm_mediaUrl = js ''https://example.org/a.mp4''\<rparr>"

definition changed :: world where
  "changed = on_ns_media_change (js ''s1'') clip played"

text \<open>
  A store with two room records and no member: \<open>rid\<close>, created at time 0 and last synced at
  time 4000000, and the room \<^verbatim>\<open>lobby\<close>, created and last synced at time 0.
\<close>

definition lobby :: js_string where
  "lobby = js ''lobby''"

definition record_of :: "js_string \<Rightarrow> int \<Rightarrow> room_hash" where
  "record_of roomId lastSync =
     \<lparr>h_id = Some roomId, h_name = Some (js ''Watch Party''), h_hostId = Some [],
      h_createdAt = Some 0, h_mediaType = Some [], h_mediaUrl = Some [],
      h_isPlaying = Some False, h_currentTime = Some 0, h_lastSync = Some lastSync\<rparr>"

definition two_rooms :: world where
  "two_rooms = empty_world\<lparr>rooms := [(rid, record_of rid 4000000), (lobby, record_of lobby 0)]\<rparr>"

text \<open>A sweep all of whose rounds read the time 4000001.\<close>

definition at_4000001 :: "js_string \<Rightarrow> int" where
  "at_4000001 roomId = 4000001"

text \<open>
  A store with two room records and no member, both created at time 0: the room
  \<^verbatim>\<open>ABCDEF\<close> and the room \<^verbatim>\<open>ABCDEF:messages\<close>, whose record key is the key of the message list
  of the first.
\<close>

definition shadowed :: world where
  "shadowed = empty_world\<lparr>rooms := [(js ''ABCDEF'', record_of (js ''ABCDEF'') 0),
     (js ''ABCDEF:messages'', record_of (js ''ABCDEF:messages'') 0)]\<rparr>"

section \<open>Properties\<close>

subsection \<open>Room creation over REST\<close>

lemma odaId_unbound:
  "lookup_ident (create_scope body roomId) ''odaId'' = Inl (ReferenceError ''odaId'')"
  by (simp add: lookup_ident_def create_scope_def module_scope_def)

lemma api_room_create_cases:
  "snd (api_room_create body rnd now w) = w
   \<and> status (fst (api_room_create body rnd now w)) \<noteq> 200"
  by (simp add: api_room_create_def odaId_unbound split: option.splits prod.splits)

text \<open>
  C1 (the code departs from the claim). The claim: a create request with a non-empty userId
  and userName is answered with a roomId, and a fresh room record with that host, empty
  media state and a one-hour TTL exists. The handler reads the undeclared identifier
  \<^verbatim>\<open>odaId\<close> while it builds the record, so every such request ends in the \<^verbatim>\<open>catch\<close>
  block: the answer is 500 whatever the code drawn, and the store is left as it was.
\<close>

theorem api_room_create_fails:
  assumes "truthy_opt (b_userId body)" and "truthy_opt (b_userName body)"
  shows "\<exists>b. api_room_create body rnd now w = (Response 500 b, w)"
  using assms
  by (auto simp: api_room_create_def odaId_unbound truthy_opt_def split: option.splits prod.splits)

theorem api_room_create_fails_witness:
  "truthy_opt (b_userId alice_body) \<and> truthy_opt (b_userName alice_body)
   \<and> (\<exists>b. api_room_create alice_body (\<lambda>a i. 0) 1000 empty_world = (Response 500 b, empty_world))"
proof -
  have 1: "truthy_opt (b_userId alice_body)"
    by (simp add: alice_body_def truthy_opt_def truthy_def js_def)
  have 2: "truthy_opt (b_userName alice_body)"
    by (simp add: alice_body_def truthy_opt_def truthy_def js_def)
  show ?thesis using 1 2 api_room_create_fails [OF 1 2] by simp
qed

subsection \<open>The fields each command writes\<close>

lemma hmset_room_fields [simp]:
  "rooms (hmset_room r upd w) = AList.update r (hmset_fields upd (hgetall_room w r)) (rooms w)"
  "ttl (hmset_room r upd w) = ttl w"
  "participants (hmset_room r upd w) = participants w"
  "users (hmset_room r upd w) = users w"
  "messages (hmset_room r upd w) = messages w"
  "socket_rooms (hmset_room r upd w) = socket_rooms w"
  "conns (hmset_room r upd w) = conns w"
  "outbox (hmset_room r upd w) = outbox w"
  by (simp_all add: hmset_room_def)

lemma expire_fields [simp]:
  "rooms (expire r s w) = rooms w"
  "ttl (expire r s w) = (if redis_exists w r then (ttl w)(r \<mapsto> s) else ttl w)"
  "participants (expire r s w) = participants w"
  "users (expire r s w) = users w"
  "messages (expire r s w) = messages w"
  "socket_rooms (expire r s w) = socket_rooms w"
  "conns (expire r s w) = conns w"
  "outbox (expire r s w) = outbox w"
  by (simp_all add: expire_def)

lemma sadd_fields [simp]:
  "rooms (sadd r m w) = rooms w"
  "ttl (sadd r m w) = ttl w"
  "participants (sadd r m w) = (if m \<in> set (participants w r) then participants w else (participants w)(r := participants w r @ [m]))"
  "users (sadd r m w) = users w"
  "messages (sadd r m w) = messages w"
  "socket_rooms (sadd r m w) = socket_rooms w"
  "conns (sadd r m w) = conns w"
  "outbox (sadd r m w) = outbox w"
  by (simp_all add: sadd_def)

lemma srem_fields [simp]:
  "rooms (srem r m w) = rooms w"
  "ttl (srem r m w) = ttl w"
  "participants (srem r m w) = (participants w)(r := removeAll m (participants w r))"
  "users (srem r m w) = users w"
  "messages (srem r m w) = messages w"
  "socket_rooms (srem r m w) = socket_rooms w"
  "conns (srem r m w) = conns w"
  "outbox (srem r m w) = outbox w"
  by (simp_all add: srem_def)

lemma hmset_user_fields [simp]:
  "rooms (hmset_user r u h w) = rooms w"
  "ttl (hmset_user r u h w) = ttl w"
  "participants (hmset_user r u h w) = participants w"
  "users (hmset_user r u h w) = (users w)((r, u) \<mapsto> h)"
  "messages (hmset_user r u h w) = messages w"
  "socket_rooms (hmset_user r u h w) = socket_rooms w"
  "conns (hmset_user r u h w) = conns w"
  "outbox (hmset_user r u h w) = outbox w"
  by (simp_all add: hmset_user_def)

lemma hset_user_isHost_fields [simp]:
  "rooms (hset_user_isHost r u w) = rooms w"
  "ttl (hset_user_isHost r u w) = ttl w"
  "participants (hset_user_isHost r u w) = participants w"
  "users (hset_user_isHost r u w) = (users w)((r, u) := map_option (\<lambda>h. h\<lparr>u_isHost := True\<rparr>) (users w (r, u)))"
  "messages (hset_user_isHost r u w) = messages w"
  "socket_rooms (hset_user_isHost r u w) = socket_rooms w"
  "conns (hset_user_isHost r u w) = conns w"
  "outbox (hset_user_isHost r u w) = outbox w"
  by (simp_all add: hset_user_isHost_def)

lemma rpush_fields [simp]:
  "rooms (rpush r m w) = rooms w"
  "ttl (rpush r m w) = ttl w"
  "participants (rpush r m w) = participants w"
  "users (rpush r m w) = users w"
  "messages (rpush r m w) = (messages w)(r := messages w r @ [m])"
  "socket_rooms (rpush r m w) = socket_rooms w"
  "conns (rpush r m w) = conns w"
  "outbox (rpush r m w) = outbox w"
  by (simp_all add: rpush_def)

lemma ltrim_fields [simp]:
  "rooms (ltrim r n w) = rooms w"
  "ttl (ltrim r n w) = ttl w"
  "participants (ltrim r n w) = participants w"
  "users (ltrim r n w) = users w"
  "messages (ltrim r n w) = (messages w)(r := last_n n (messages w r))"
  "socket_rooms (ltrim r n w) = socket_rooms w"
  "conns (ltrim r n w) = conns w"
  "outbox (ltrim r n w) = outbox w"
  by (simp_all add: ltrim_def)

lemma socket_join_fields [simp]:
  "rooms (socket_join sid r w) = rooms w"
  "ttl (socket_join sid r w) = ttl w"
  "participants (socket_join sid r w) = participants w"
  "users (socket_join sid r w) = users w"
  "messages (socket_join sid r w) = messages w"
  "socket_rooms (socket_join sid r w) = (if sid \<in> set (socket_rooms w r) then socket_rooms w else (socket_rooms w)(r := socket_rooms w r @ [sid]))"
  "conns (socket_join sid r w) = conns w"
  "outbox (socket_join sid r w) = outbox w"
  by (simp_all add: socket_join_def)

lemma socket_leave_fields [simp]:
  "rooms (socket_leave sid r w) = rooms w"
  "ttl (socket_leave sid r w) = ttl w"
  "participants (socket_leave sid r w) = participants w"
  "users (socket_leave sid r w) = users w"
  "messages (socket_leave sid r w) = messages w"
  "socket_rooms (socket_leave sid r w) = (socket_rooms w)(r := removeAll sid (socket_rooms w r))"
  "conns (socket_leave sid r w) = conns w"
  "outbox (socket_leave sid r w) = outbox w"
  by (simp_all add: socket_leave_def)

lemma emit_fields [simp]:
  "rooms (emit t e w) = rooms w"
  "ttl (emit t e w) = ttl w"
  "participants (emit t e w) = participants w"
  "users (emit t e w) = users w"
  "messages (emit t e w) = messages w"
  "socket_rooms (emit t e w) = socket_rooms w"
  "conns (emit t e w) = conns w"
  "outbox (emit t e w) = outbox w @ [(t, e)]"
  by (simp_all add: emit_def)

lemma set_conn_fields [simp]:
  "rooms (set_conn sid c w) = rooms w"
  "ttl (set_conn sid c w) = ttl w"
  "participants (set_conn sid c w) = participants w"
  "users (set_conn sid c w) = users w"
  "messages (set_conn sid c w) = messages w"
  "socket_rooms (set_conn sid c w) = socket_rooms w"
  "conns (set_conn sid c w) = (conns w)(sid := c)"
  "outbox (set_conn sid c w) = outbox w"
  by (simp_all add: set_conn_def)

subsection \<open>Keys\<close>

lemma room_key_eq [simp]: "room_key a = room_key b \<longleftrightarrow> a = b"
  by (simp add: room_key_def)

lemma participants_key_eq [simp]: "participants_key a = participants_key b \<longleftrightarrow> a = b"
  by (simp add: participants_key_def)

lemma messages_key_eq [simp]: "messages_key a = messages_key b \<longleftrightarrow> a = b"
  by (simp add: messages_key_def)

lemma room_key_participants [simp]:
  "room_key a = participants_key b \<longleftrightarrow> a = b @ js '':participants''"
  "participants_key b = room_key a \<longleftrightarrow> a = b @ js '':participants''"
  by (auto simp: room_key_def participants_key_def)

lemma room_key_messages [simp]:
  "room_key a = messages_key b \<longleftrightarrow> a = b @ js '':messages''"
  "messages_key b = room_key a \<longleftrightarrow> a = b @ js '':messages''"
  by (auto simp: room_key_def messages_key_def)

lemma suffixes_differ: "a @ js '':participants'' \<noteq> b @ js '':messages''"
proof
  assume "a @ js '':participants'' = b @ js '':messages''"
  then have "rev (a @ js '':participants'') = rev (b @ js '':messages'')"
    by simp
  then show False by (simp add: js_def)
qed

lemma participants_key_messages [simp]:
  "participants_key a \<noteq> messages_key b" "messages_key b \<noteq> participants_key a"
  using suffixes_differ [of a b] by (auto simp: participants_key_def messages_key_def)

lemma user_key_other [simp]:
  "user_key r u \<noteq> room_key a" "room_key a \<noteq> user_key r u"
  "user_key r u \<noteq> participants_key a" "participants_key a \<noteq> user_key r u"
  "user_key r u \<noteq> messages_key a" "messages_key a \<noteq> user_key r u"
  by (simp_all add: user_key_def room_key_def participants_key_def messages_key_def js_def)

lemma user_key_same_room [simp]: "user_key r a = user_key r b \<longleftrightarrow> a = b"
  by (simp add: user_key_def)

lemma filter_keys: "filter (\<lambda>(a, h). a \<noteq> k) al = AList.delete k al"
  by (induction al) auto

lemma del_key_fields [simp]:
  "rooms (del_key k w) = filter (\<lambda>(a, h). room_key a \<noteq> k) (rooms w)"
  "ttl (del_key k w) = (\<lambda>a. if room_key a = k then None else ttl w a)"
  "participants (del_key k w) = (\<lambda>a. if participants_key a = k then [] else participants w a)"
  "users (del_key k w) = (\<lambda>(a, u). if user_key a u = k then None else users w (a, u))"
  "messages (del_key k w) = (\<lambda>a. if messages_key a = k then [] else messages w a)"
  "socket_rooms (del_key k w) = socket_rooms w"
  "conns (del_key k w) = conns w"
  "outbox (del_key k w) = outbox w"
  by (simp_all add: del_key_def)

lemma del_room_fields [simp]:
  "rooms (del_room r w) = AList.delete r (rooms w)"
  "ttl (del_room r w) = (ttl w)(r := None)"
  "participants (del_room r w) = (\<lambda>a. if r = a @ js '':participants'' then [] else participants w a)"
  "users (del_room r w) = users w"
  "messages (del_room r w) = (\<lambda>a. if r = a @ js '':messages'' then [] else messages w a)"
  "socket_rooms (del_room r w) = socket_rooms w"
  "conns (del_room r w) = conns w"
  "outbox (del_room r w) = outbox w"
  by (auto simp: del_room_def filter_keys)

lemma del_participants_fields [simp]:
  "rooms (del_participants r w) = AList.delete (r @ js '':participants'') (rooms w)"
  "ttl (del_participants r w) = (ttl w)(r @ js '':participants'' := None)"
  "participants (del_participants r w) = (participants w)(r := [])"
  "users (del_participants r w) = users w"
  "messages (del_participants r w) = messages w"
  "socket_rooms (del_participants r w) = socket_rooms w"
  "conns (del_participants r w) = conns w"
  "outbox (del_participants r w) = outbox w"
  by (auto simp: del_participants_def filter_keys)

lemma del_messages_fields [simp]:
  "rooms (del_messages r w) = AList.delete (r @ js '':messages'') (rooms w)"
  "ttl (del_messages r w) = (ttl w)(r @ js '':messages'' := None)"
  "participants (del_messages r w) = participants w"
  "users (del_messages r w) = users w"
  "messages (del_messages r w) = (messages w)(r := [])"
  "socket_rooms (del_messages r w) = socket_rooms w"
  "conns (del_messages r w) = conns w"
  "outbox (del_messages r w) = outbox w"
  by (auto simp: del_messages_def filter_keys)

lemma del_user_fields [simp]:
  "rooms (del_user r u w) = rooms w"
  "ttl (del_user r u w) = ttl w"
  "participants (del_user r u w) = participants w"
  "users (del_user r u w) =
     (\<lambda>(a, b). if user_key a b = user_key r u then None else users w (a, b))"
  "messages (del_user r u w) = messages w"
  "socket_rooms (del_user r u w) = socket_rooms w"
  "conns (del_user r u w) = conns w"
  "outbox (del_user r u w) = outbox w"
  by (simp_all add: del_user_def)

lemma hmset_fields_empty: "hmset_fields upd empty_hash = upd"
  by (simp add: hmset_fields_def empty_hash_def pick_def split: option.splits)

subsection \<open>What the helpers read\<close>



lemma getRoomData_cong:
  "map_of (rooms w') r = map_of (rooms w) r \<Longrightarrow> getRoomData w' r = getRoomData w r"
  by (simp add: getRoomData_def hgetall_room_def)

lemma scard_cong: "participants w' r = participants w r \<Longrightarrow> scard w' r = scard w r"
  by (simp add: scard_def smembers_def)


lemma length_map_filter: "length (List.map_filter f xs) = length (filter (\<lambda>x. f x \<noteq> None) xs)"
  by (induction xs) (auto simp: List.map_filter_simps split: option.splits)

subsection \<open>The participant listing\<close>

lemma listing_sorted: "sorted (map u_joinedAt (getRoomParticipants w r))"
  by (simp add: getRoomParticipants_def)




subsection \<open>Host re-election\<close>



subsection \<open>The effect of \<^verbatim>\<open>room:join\<close>, field by field\<close>

lemma on_room_join_rooms:
  "rooms (on_room_join sid \<lparr>j_roomId = r, j_user = Some u\<rparr> now w) =
     (if redis_exists w r then rooms w
      else AList.update r (fields_room_join r u now) (rooms w))"
  by (auto simp: on_room_join_def Let_def redis_exists_def hgetall_room_def hmset_fields_empty
      split: option.splits)

lemma on_room_join_participants:
  "participants (on_room_join sid \<lparr>j_roomId = r, j_user = Some u\<rparr> now w) =
     (if o_id u \<in> set (participants w r) then participants w
      else (participants w)(r := participants w r @ [o_id u]))"
  by (auto simp: on_room_join_def Let_def split: option.splits)

lemma on_room_join_users:
  "users (on_room_join sid \<lparr>j_roomId = r, j_user = Some u\<rparr> now w) =
     (users w)((r, o_id u) \<mapsto> user_record u (o_avatar u) sid now (o_isHost u))"
  by (auto simp: on_room_join_def Let_def split: option.splits)

lemma on_room_join_conns:
  "conns (on_room_join sid \<lparr>j_roomId = r, j_user = u\<rparr> now w) =
     (conns w)(sid := \<lparr>currentRoom = Some r, currentUser = u\<rparr>)"
  by (auto simp: on_room_join_def Let_def split: option.splits)

lemma on_room_join_socket_rooms:
  "socket_rooms (on_room_join sid \<lparr>j_roomId = r, j_user = u\<rparr> now w) =
     (if sid \<in> set (socket_rooms w r) then socket_rooms w
      else (socket_rooms w)(r := socket_rooms w r @ [sid]))"
  by (auto simp: on_room_join_def Let_def split: option.splits)

lemma on_room_join_messages:
  "messages (on_room_join sid data now w) = messages w"
  by (auto simp: on_room_join_def Let_def split: option.splits)

lemmas on_room_join_fields = on_room_join_rooms on_room_join_participants on_room_join_users
  on_room_join_conns on_room_join_socket_rooms on_room_join_messages

subsection \<open>The example states\<close>

lemma joined_a_fields:
  "rooms joined_a = [(rid, fields_room_join rid alice 1000)]"
  "participants joined_a = (\<lambda>_. [])(rid := [js ''a''])"
  "users joined_a = (\<lambda>_. None)((rid, js ''a'') \<mapsto> user_record alice None (js ''s1'') 1000 True)"
  "conns joined_a =
     (\<lambda>_. unbound)(js ''s1'' := \<lparr>currentRoom = Some rid, currentUser = Some alice\<rparr>)"
  "socket_rooms joined_a = (\<lambda>_. [])(rid := [js ''s1''])"
  "messages joined_a = (\<lambda>_. [])"
  by (simp_all add: joined_a_def join_of_def on_room_join_fields redis_exists_def
      empty_world_def alice_def)

lemma joined_ab_fields:
  "rooms joined_ab = [(rid, fields_room_join rid alice 1000)]"
  "participants joined_ab = (\<lambda>_. [])(rid := [js ''a'', js ''b''])"
  "users joined_ab =
     (\<lambda>_. None)((rid, js ''a'') \<mapsto> user_record alice None (js ''s1'') 1000 True,
       (rid, js ''b'') \<mapsto> user_record bob None (js ''s2'') 2000 False)"
  "conns joined_ab =
     (\<lambda>_. unbound)(js ''s1'' := \<lparr>currentRoom = Some rid, currentUser = Some alice\<rparr>,
       js ''s2'' := \<lparr>currentRoom = Some rid, currentUser = Some bob\<rparr>)"
  "socket_rooms joined_ab = (\<lambda>_. [])(rid := [js ''s1'', js ''s2''])"
  "messages joined_ab = (\<lambda>_. [])"
  by (simp_all add: joined_ab_def join_of_def on_room_join_fields redis_exists_def
      joined_a_fields bob_def js_def)







subsection \<open>Order and hosts of the listing\<close>

lemma listing_length: "length (getRoomParticipants w r) \<le> scard w r"
  by (simp add: getRoomParticipants_def scard_def length_map_filter)

lemma joined_b_listing:
  "getRoomParticipants joined_b rid = [user_record bob None (js ''s2'') 2000 False]"
  by (simp add: joined_b_def run_def join_of_def getRoomParticipants_def smembers_def
      on_room_join_fields redis_exists_def empty_world_def List.map_filter_simps userData_of_def
      user_record_def bob_def truthy_def js_def)

lemma joined_ad_listing:
  "getRoomParticipants joined_ad rid =
     [user_record alice None (js ''s1'') 1000 True, user_record dave None (js ''s4'') 2000 True]"
  by (simp add: joined_ad_def run_def join_of_def getRoomParticipants_def smembers_def
      on_room_join_fields redis_exists_def empty_world_def List.map_filter_simps userData_of_def
      user_record_def alice_def dave_def truthy_def js_def)

text \<open>
  C4, as stated, fails: after Bob alone has joined with \<^verbatim>\<open>room:join\<close> the room has one
  participant and no host, and after Alice and Dave have joined, who both sent
  \<^verbatim>\<open>isHost: true\<close>, it has two hosts.
\<close>

theorem hosts_not_exactly_one:
  "length (getRoomParticipants joined_b rid) = 1
   \<and> length (filter u_isHost (getRoomParticipants joined_b rid)) = 0
   \<and> length (filter u_isHost (getRoomParticipants joined_ad rid)) = 2"
  by (simp add: joined_b_listing joined_ad_listing user_record_def)

text \<open>
  C4, amended. After every sequence of events, from every state, the participant listing
  of every room is ordered by \<^verbatim>\<open>joinedAt\<close> ascending, and the number of listed participants
  with \<^verbatim>\<open>isHost\<close> true is at most the cardinality of the membership set: zero when the room
  is empty, and not bound to one when it is not.
\<close>

theorem listing_ordered_hosts_bounded:
  "sorted (map u_joinedAt (getRoomParticipants (run ops w) r))
   \<and> length (filter u_isHost (getRoomParticipants (run ops w) r)) \<le> scard (run ops w) r"
proof
  show "sorted (map u_joinedAt (getRoomParticipants (run ops w) r))"
    by (rule listing_sorted)
next
  have "length (filter u_isHost (getRoomParticipants (run ops w) r))
      \<le> length (getRoomParticipants (run ops w) r)"
    by (rule length_filter_le)
  also have "\<dots> \<le> scard (run ops w) r"
    by (rule listing_length)
  finally show "length (filter u_isHost (getRoomParticipants (run ops w) r)) \<le> scard (run ops w) r" .
qed

subsection \<open>Members without a user record\<close>

lemma userData_of_missing: "users w (r, k) = None \<Longrightarrow> userData_of w r k = None"
  by (simp add: userData_of_def)

lemma listing_count:
  "length (getRoomParticipants w r) =
     length (filter (\<lambda>k. userData_of w r k \<noteq> None) (smembers w r))"
  by (simp add: getRoomParticipants_def length_map_filter)

lemma filter_shorter: "k \<in> set xs \<Longrightarrow> \<not> P k \<Longrightarrow> length (filter P xs) < length xs"
  by (induction xs) (auto simp: less_Suc_eq_le)

lemma getRoomData_exists: "getRoomData w r = Some rm \<Longrightarrow> redis_exists w r"
  by (auto simp: getRoomData_def hgetall_room_def redis_exists_def empty_hash_def Let_def
      split: option.splits if_splits)

text \<open>
  C10. The listing has one entry for each member whose user hash exists and has an id, and
  none for the others. So when the room record exists and some member \<open>k\<close> has no such
  hash, the \<^verbatim>\<open>participantCount\<close> that GET /api/room/:roomId reports (the length of the
  listing) is strictly smaller than the one the validate endpoint reports (SCARD of the
  membership set, which the capacity check of \<^verbatim>\<open>join_room\<close> reads too).
\<close>

theorem listing_omits_members_without_record:
  assumes room: "getRoomData w r = Some rm"
    and member: "k \<in> set (smembers w r)"
    and missing: "userData_of w r k = None"
  shows "get_room r w = Response 200 (B_room rm (length (getRoomParticipants w r)))
       \<and> validate_room r w = Response 200 (B_valid (scard w r) (scard w r \<ge> maxParticipants))
       \<and> length (getRoomParticipants w r) =
           length (filter (\<lambda>k. userData_of w r k \<noteq> None) (smembers w r))
       \<and> length (getRoomParticipants w r) < scard w r"
proof -
  have 1: "get_room r w = Response 200 (B_room rm (length (getRoomParticipants w r)))"
    using room by (simp add: get_room_def)
  have 2: "validate_room r w = Response 200 (B_valid (scard w r) (scard w r \<ge> maxParticipants))"
    using getRoomData_exists [OF room] by (simp add: validate_room_def Let_def)
  have 3: "length (getRoomParticipants w r) < scard w r"
    unfolding listing_count scard_def
    using member missing by (intro filter_shorter [of k]) simp_all
  from 1 2 3 listing_count [of w r] show ?thesis by simp
qed

lemma joined_nobody_fields:
  "rooms joined_nobody = [(rid, fields_room_join rid nobody 1000)]"
  "participants joined_nobody = (\<lambda>_. [])(rid := [[]])"
  "users joined_nobody = (\<lambda>_. None)((rid, []) \<mapsto> user_record nobody None (js ''s9'') 1000 False)"
  by (simp_all add: joined_nobody_def join_of_def on_room_join_fields redis_exists_def
      empty_world_def nobody_def)

text \<open>
  A user with the empty string as id has joined with \<^verbatim>\<open>room:join\<close>: the membership set
  has one member, whose hash the listing leaves out for its empty id.
\<close>

theorem listing_omits_witness:
  "getRoomData joined_nobody rid = Some nobody_room
   \<and> [] \<in> set (smembers joined_nobody rid)
   \<and> userData_of joined_nobody rid [] = None
   \<and> get_room rid joined_nobody = Response 200 (B_room nobody_room 0)
   \<and> validate_room rid joined_nobody = Response 200 (B_valid 1 False)"
proof -
  have room: "getRoomData joined_nobody rid = Some nobody_room"
    by (simp add: getRoomData_def hgetall_room_def joined_nobody_fields fields_room_join_def
        truthy_def nobody_def nobody_room_def)
       (simp add: rid_def js_def)
  have member: "[] \<in> set (smembers joined_nobody rid)"
    by (simp add: smembers_def joined_nobody_fields)
  have missing: "userData_of joined_nobody rid [] = None"
    by (simp add: userData_of_def joined_nobody_fields user_record_def nobody_def truthy_def)
  have count: "scard joined_nobody rid = 1"
    by (simp add: scard_def smembers_def joined_nobody_fields)
  show ?thesis
    using listing_omits_members_without_record [OF room member missing] room member missing count
    by (simp add: maxParticipants_def)
qed

subsection \<open>Capacity\<close>

text \<open>\<^verbatim>\<open>join_room\<close> turns the join of a full room down and writes nothing.\<close>

lemma join_room_rejects_when_full:
  assumes "getRoomData w r = Some rm" and "scard w r \<ge> maxParticipants"
    and "truthy r" and "truthy (o_id u)" and "truthy (o_name u)"
  shows "on_join_room sid \<lparr>j_roomId = r, j_user = Some u\<rparr> now w
           = emit (ToSocket sid) (Ev_error ''Room is full'') w"
  using assms by (simp add: on_join_room_def Let_def)

lemma run_snoc: "run (ops @ [x]) w = step x (run ops w)"
  by (simp add: run_def)

lemma joins_Suc:
  "joins (Suc n) = joins n @ [Room_join (replicate (Suc n) 115) (join_of (member n)) (int n)]"
  by (simp add: joins_def)

lemma joins_participants:
  "participants (run (joins n) empty_world) rid = map (\<lambda>i. replicate (Suc i) 117) [0..<n]"
proof (induction n)
  case 0
  show ?case by (simp add: joins_def run_def empty_world_def)
next
  case (Suc n)
  have fresh: "replicate (Suc n) (117 :: code_unit) \<notin> set (map (\<lambda>i. replicate (Suc i) 117) [0..<n])"
    by (auto simp: replicate_eq_replicate dest: arg_cong [where f = length])
  show ?case
    using fresh
    by (simp add: joins_Suc run_snoc join_of_def on_room_join_participants Suc member_def
        del: replicate_Suc)
qed

lemma joins_scard: "scard (run (joins n) empty_world) rid = n"
proof -
  have "inj_on (\<lambda>i. replicate (Suc i) (117 :: code_unit)) (set [0..<n])"
    by (rule inj_onI) (auto dest: arg_cong [where f = length])
  then have "distinct (map (\<lambda>i. replicate (Suc i) (117 :: code_unit)) [0..<n])"
    by (simp add: distinct_map)
  then show ?thesis
    by (simp add: scard_def smembers_def joins_participants distinct_remdups_id del: replicate_Suc)
qed

text \<open>
  C2 (the code departs from the claim). The claim: a join of a room that has 50 members is
  rejected on both join paths. \<^verbatim>\<open>room:join\<close> has no capacity check: after fifty users
  have joined the room \<open>rid\<close>, the validate endpoint reports it full, and the fifty-first
  \<^verbatim>\<open>room:join\<close> still adds its user to the membership set and writes its user hash.
\<close>

theorem room_join_exceeds_capacity:
  "scard (run (joins 50) empty_world) rid = maxParticipants
   \<and> validate_room rid (run (joins 50) empty_world) = Response 200 (B_valid 50 True)
   \<and> run (joins 51) empty_world
       = on_room_join (replicate 51 115) (join_of (member 50)) 50 (run (joins 50) empty_world)
   \<and> scard (run (joins 51) empty_world) rid = 51
   \<and> o_id (member 50) \<in> set (smembers (run (joins 51) empty_world) rid)
   \<and> users (run (joins 51) empty_world) (rid, o_id (member 50))
       = Some (user_record (member 50) None (replicate 51 115) 50 False)"
proof -
  have exists: "redis_exists (run (joins 50) empty_world) rid"
  proof -
    have "redis_exists (run (joins (Suc n)) empty_world) rid" for n
      by (induction n)
         (simp_all add: joins_Suc run_snoc join_of_def on_room_join_rooms redis_exists_def
            update_conv' joins_def run_def del: replicate_Suc)
    from this [of 49] show ?thesis by simp
  qed
  have step: "run (joins 51) empty_world
       = on_room_join (replicate 51 115) (join_of (member 50)) 50 (run (joins 50) empty_world)"
    using joins_Suc [of 50] by (simp add: run_snoc del: replicate_Suc)
  have mem: "o_id (member 50) \<in> set (smembers (run (joins 51) empty_world) rid)"
    by (simp add: smembers_def joins_participants member_def del: replicate_Suc)
  have usr: "users (run (joins 51) empty_world) (rid, o_id (member 50))
       = Some (user_record (member 50) None (replicate 51 115) 50 False)"
    by (simp add: step join_of_def on_room_join_users member_def del: replicate_Suc)
  have full: "scard (run (joins 50) empty_world) rid = maxParticipants"
    by (simp add: joins_scard maxParticipants_def)
  have valid: "validate_room rid (run (joins 50) empty_world) = Response 200 (B_valid 50 True)"
    using exists by (simp add: joins_scard validate_room_def Let_def maxParticipants_def)
  have over: "scard (run (joins 51) empty_world) rid = 51"
    by (rule joins_scard)
  from full valid step over mem usr show ?thesis by blast
qed

subsection \<open>Length of the chat history\<close>

lemma length_last_n: "length (last_n n xs) \<le> n"
  by (simp add: last_n_def)

text \<open>Both chat handlers trim after they append.\<close>

lemma chat_message_bounded:
  "length (messages w r) \<le> 100 \<Longrightarrow> length (messages (on_chat_message sid t uuid now w) r) \<le> 100"
  by (auto simp: on_chat_message_def Let_def length_last_n split: option.splits)

lemma ns_chat_message_bounded:
  "length (messages w r) \<le> 100 \<Longrightarrow> length (messages (on_ns_chat_message sid data w) r) \<le> 100"
  by (auto simp: on_ns_chat_message_def Let_def length_last_n)

lemma last_n_full: "length xs = n \<Longrightarrow> 0 < n \<Longrightarrow> last_n n (xs @ [x]) = tl xs @ [x]"
  by (cases xs) (simp_all add: last_n_def)

lemma ns_chat_message_evicts_oldest:
  "in_room w sid \<Longrightarrow> length (messages w (nc_roomId data)) = 100 \<Longrightarrow>
   messages (on_ns_chat_message sid data w) (nc_roomId data)
     = tl (messages w (nc_roomId data)) @ [nc_message data]"
  by (simp add: on_ns_chat_message_def Let_def last_n_full)

text \<open>The system message of \<^verbatim>\<open>media_change\<close> is appended and the list is not trimmed.\<close>

lemma media_change_messages:
  "bound_to w sid = Some (r, user) \<Longrightarrow>
   messages (on_media_change sid data uuid now w) =
     (messages w)(r := messages w r @ [SystemMessage uuid (media_text (o_name user)) now])"
  by (simp add: on_media_change_def Let_def)

lemma media_change_conns: "conns (on_media_change sid data uuid now w) = conns w"
  by (simp add: on_media_change_def Let_def split: option.splits prod.splits)

lemma media_change_bound: "bound_to (on_media_change sid data uuid now w) s = bound_to w s"
  unfolding bound_to_def media_change_conns ..

lemma joined_a_bound: "bound_to joined_a (js ''s1'') = Some (rid, alice)"
  by (simp add: bound_to_def joined_a_fields truthy_def rid_def js_def)

lemma changes_Suc:
  "changes (Suc n) = changes n @ [Media_change (js ''s1'') video (js ''m'') (int n)]"
  by (simp add: changes_def)

lemma changes_bound: "bound_to (run (changes n) joined_a) (js ''s1'') = Some (rid, alice)"
  by (induction n)
     (simp_all add: changes_Suc run_snoc media_change_bound joined_a_bound,
      simp add: changes_def run_def joined_a_bound)

lemma changes_messages:
  "messages (run (changes n) joined_a) rid =
     map (\<lambda>i. SystemMessage (js ''m'') (media_text (js ''Alice'')) (int i)) [0..<n]"
proof (induction n)
  case 0
  show ?case by (simp add: changes_def run_def joined_a_fields)
next
  case (Suc n)
  show ?case
    by (simp add: changes_Suc run_snoc media_change_messages [OF changes_bound] Suc alice_def)
qed

text \<open>
  C5 (the code departs from the claim). The claim: the stored chat history never exceeds
  100 entries, system messages included, and an append at 100 evicts the oldest. The
  system message of \<^verbatim>\<open>media_change\<close> (and that of a leave) is appended with no LTRIM: after
  Alice has changed the media 100 times the list holds 100 messages, and after the next
  change it holds 101, the oldest (of time 0) still the first.
\<close>

theorem media_change_history_unbounded:
  "length (messages (run (changes 100) joined_a) rid) = 100
   \<and> run (changes 101) joined_a
       = on_media_change (js ''s1'') video (js ''m'') 100 (run (changes 100) joined_a)
   \<and> length (messages (run (changes 101) joined_a) rid) = 101
   \<and> hd (messages (run (changes 101) joined_a) rid)
       = SystemMessage (js ''m'') (media_text (js ''Alice'')) 0
   \<and> hd (messages (run (changes 100) joined_a) rid)
       = SystemMessage (js ''m'') (media_text (js ''Alice'')) 0"
proof -
  have step: "run (changes 101) joined_a
       = on_media_change (js ''s1'') video (js ''m'') 100 (run (changes 100) joined_a)"
    using changes_Suc [of 100] by (simp add: run_snoc)
  have hd: "hd (map f [0..<Suc n]) = f 0" for f :: "nat \<Rightarrow> chat_message" and n
    by (simp add: upt_conv_Cons del: upt_Suc)
  have h101: "hd (messages (run (changes 101) joined_a) rid)
       = SystemMessage (js ''m'') (media_text (js ''Alice'')) 0"
    using hd [of _ 100] by (simp add: changes_messages del: upt_Suc)
  have h100: "hd (messages (run (changes 100) joined_a) rid)
       = SystemMessage (js ''m'') (media_text (js ''Alice'')) 0"
    using hd [of _ 99] by (simp add: changes_messages del: upt_Suc)
  have l100: "length (messages (run (changes 100) joined_a) rid) = 100"
    by (simp add: changes_messages)
  have l101: "length (messages (run (changes 101) joined_a) rid) = 101"
    by (simp add: changes_messages)
  from l100 step l101 h101 h100 show ?thesis by blast
qed

subsection \<open>Validation of chat messages\<close>

text \<open>\<^verbatim>\<open>chat_message\<close> drops a text that is empty after trimming or longer than 500.\<close>

lemma chat_message_rejects:
  "length (trim t) = 0 \<or> length t > 500 \<Longrightarrow> on_chat_message sid (Some t) uuid now w = w"
  by (auto simp: on_chat_message_def split: option.splits)

lemma ns_chat_message_effect:
  assumes "in_room w sid"
  shows "messages (on_ns_chat_message sid data w) =
           (messages w)(nc_roomId data :=
              last_n 100 (messages w (nc_roomId data) @ [nc_message data]))"
    and "outbox (on_ns_chat_message sid data w) =
           outbox w @ [(ToRoomExcept (nc_roomId data) sid, Ev_chat_relay (nc_message data))]"
    and "socket_rooms (on_ns_chat_message sid data w) = socket_rooms w"
  using assms by (simp_all add: on_ns_chat_message_def Let_def)

lemma joined_ab_in_room: "in_room joined_ab (js ''s1'')"
  by (simp add: in_room_def truthy_opt_def truthy_def joined_ab_fields rid_def js_def)

lemma joined_ab_bound: "bound_to joined_ab (js ''s1'') = Some (rid, alice)"
  by (simp add: bound_to_def joined_ab_fields truthy_def rid_def js_def)

text \<open>
  C6 (the code departs from the claim). The claim: a chat post whose text is empty after
  trimming or longer than 500 characters is neither stored nor broadcast, on both chat
  paths. \<^verbatim>\<open>chat:message\<close> reads no text: with Alice and Bob in the room, Alice's message
  with the empty text, and her message of 501 characters, are stored in the history and
  sent to Bob's socket.
\<close>

theorem ns_chat_message_unvalidated:
  "length (trim (text_of empty_msg)) = 0
   \<and> messages (on_ns_chat_message (js ''s1'') \<lparr>nc_roomId = rid, nc_message = empty_msg\<rparr> joined_ab) rid
       = [empty_msg]
   \<and> outbox (on_ns_chat_message (js ''s1'') \<lparr>nc_roomId = rid, nc_message = empty_msg\<rparr> joined_ab)
       = outbox joined_ab @ [(ToRoomExcept rid (js ''s1''), Ev_chat_relay empty_msg)]
   \<and> length (text_of long_msg) = 501
   \<and> messages (on_ns_chat_message (js ''s1'') \<lparr>nc_roomId = rid, nc_message = long_msg\<rparr> joined_ab) rid
       = [long_msg]
   \<and> outbox (on_ns_chat_message (js ''s1'') \<lparr>nc_roomId = rid, nc_message = long_msg\<rparr> joined_ab)
       = outbox joined_ab @ [(ToRoomExcept rid (js ''s1''), Ev_chat_relay long_msg)]
   \<and> recipients (on_ns_chat_message (js ''s1'') \<lparr>nc_roomId = rid, nc_message = long_msg\<rparr> joined_ab)
         (ToRoomExcept rid (js ''s1'')) = [js ''s2'']"
proof -
  have texts: "length (trim (text_of empty_msg)) = 0" "length (text_of long_msg) = 501"
    by (simp_all add: empty_msg_def long_msg_def trim_def)
  have others: "removeAll (js ''s1'') [js ''s1'', js ''s2''] = [js ''s2'']"
    by (simp add: js_def)
  show ?thesis
    using texts others
    by (simp add: ns_chat_message_effect [OF joined_ab_in_room] joined_ab_fields last_n_def)
qed

subsection \<open>The fields of a playback write\<close>

text \<open>
  The HMSET of \<^verbatim>\<open>playback_state\<close>, \<^verbatim>\<open>sync:play\<close>, \<^verbatim>\<open>sync:pause\<close>, \<^verbatim>\<open>seek\<close>, \<^verbatim>\<open>sync:seek\<close>,
  \<^verbatim>\<open>media_change\<close> and of the room creation of \<^verbatim>\<open>room:join\<close> carries \<^verbatim>\<open>lastSync\<close>; that of
  \<^verbatim>\<open>media:change\<close> does not.
\<close>

lemma playback_writes_lastSync:
  "h_lastSync (fields_playback_state p t now) = Some now"
  "h_lastSync (fields_seek t now) = Some now"
  "h_lastSync (fields_media_change data now) = Some now"
  "h_lastSync (fields_room_join r u now) = Some now"
  by (simp_all add: fields_playback_state_def fields_seek_def fields_media_change_def
      fields_room_join_def empty_hash_def)

lemma ns_media_change_writes:
  "h_lastSync (fields_ns_media_change data) = None"
  "h_currentTime (fields_ns_media_change data) = Some 0"
  "h_isPlaying (fields_ns_media_change data) = Some False"
  by (simp_all add: fields_ns_media_change_def empty_hash_def)

lemma sync_play_rooms:
  "bound_to w sid = Some (r, user) \<Longrightarrow>
   rooms (on_sync_play sid (Some t) now w)
     = AList.update r (hmset_fields (fields_playback_state True t now) (hgetall_room w r)) (rooms w)"
  by (simp add: on_sync_play_def Let_def)

lemma sync_play_conns: "conns (on_sync_play sid time now w) = conns w"
  by (simp add: on_sync_play_def Let_def split: option.splits prod.splits)

lemma ns_media_change_rooms:
  "in_room w sid \<Longrightarrow>
   rooms (on_ns_media_change sid data w)
     = AList.update (nm_roomId data)
         (hmset_fields (fields_ns_media_change data) (hgetall_room w (nm_roomId data))) (rooms w)"
  by (simp add: on_ns_media_change_def Let_def)

lemma played_room:
  "hgetall_room played rid =
     (fields_room_join rid alice 1000)
       \<lparr>h_isPlaying := Some True, h_currentTime := Some 42, h_lastSync := Some 2000\<rparr>"
  by (simp add: played_def hgetall_room_def sync_play_rooms [OF joined_ab_bound] joined_ab_fields
      hmset_fields_def pick_def fields_playback_state_def fields_room_join_def empty_hash_def)

lemma played_in_room: "in_room played (js ''s1'')"
  using joined_ab_in_room by (simp add: in_room_def played_def sync_play_conns)

text \<open>
  C7 (the code departs from the claim). The claim: every write of \<^verbatim>\<open>currentTime\<close> or
  \<^verbatim>\<open>isPlaying\<close> carries \<^verbatim>\<open>lastSync\<close> in the same HMSET. That of \<^verbatim>\<open>media:change\<close> does not:
  Alice plays at time 2000 (the record holds playing, 42 seconds, \<^verbatim>\<open>lastSync\<close> 2000) and then
  changes the media; the record then holds not playing and 0 seconds of this call with the
  \<^verbatim>\<open>lastSync\<close> 2000 of the play.
\<close>

theorem ns_media_change_keeps_old_lastSync:
  "h_isPlaying (hgetall_room played rid) = Some True
   \<and> h_currentTime (hgetall_room played rid) = Some 42
   \<and> h_lastSync (hgetall_room played rid) = Some 2000
   \<and> h_lastSync (fields_ns_media_change clip) = None
   \<and> h_isPlaying (hgetall_room changed rid) = Some False
   \<and> h_currentTime (hgetall_room changed rid) = Some 0
   \<and> h_lastSync (hgetall_room changed rid) = Some 2000"
proof -
  have "hgetall_room changed rid =
     hmset_fields (fields_ns_media_change clip) (hgetall_room played rid)"
    by (simp add: changed_def hgetall_room_def ns_media_change_rooms [OF played_in_room]
        clip_def update_conv')
  then show ?thesis
    by (simp add: played_room hmset_fields_def pick_def fields_ns_media_change_def
        empty_hash_def clip_def)
qed

subsection \<open>Who receives a playback broadcast\<close>

lemma playback_state_effect:
  assumes "bound_to w sid = Some (r, user)"
  shows "outbox (on_playback_state sid p (Some t) now w)
           = outbox w @ [(ToRoom r, Ev_playback_sync p t (o_name user) now)]"
    and "socket_rooms (on_playback_state sid p (Some t) now w) = socket_rooms w"
  using assms by (simp_all add: on_playback_state_def Let_def)

lemma seek_effect:
  assumes "bound_to w sid = Some (r, user)"
  shows "outbox (on_seek sid (Some t) now w)
           = outbox w @ [(ToRoom r, Ev_seek_sync t (o_name user) now)]"
    and "socket_rooms (on_seek sid (Some t) now w) = socket_rooms w"
  using assms by (simp_all add: on_seek_def Let_def)

lemma sync_play_effect:
  assumes "bound_to w sid = Some (r, user)"
  shows "outbox (on_sync_play sid (Some t) now w) = outbox w @ [(ToRoomExcept r sid, Ev_sync_play t)]"
    and "socket_rooms (on_sync_play sid (Some t) now w) = socket_rooms w"
  using assms by (simp_all add: on_sync_play_def Let_def)

lemma sync_pause_effect:
  assumes "bound_to w sid = Some (r, user)"
  shows "outbox (on_sync_pause sid (Some t) now w) = outbox w @ [(ToRoomExcept r sid, Ev_sync_pause t)]"
    and "socket_rooms (on_sync_pause sid (Some t) now w) = socket_rooms w"
  using assms by (simp_all add: on_sync_pause_def Let_def)

lemma sync_seek_effect:
  assumes "bound_to w sid = Some (r, user)"
  shows "outbox (on_sync_seek sid (Some t) now w) = outbox w @ [(ToRoomExcept r sid, Ev_sync_seek t)]"
    and "socket_rooms (on_sync_seek sid (Some t) now w) = socket_rooms w"
  using assms by (simp_all add: on_sync_seek_def Let_def)

text \<open>
  C8, as stated, fails: with Alice and Bob in the room, the \<^verbatim>\<open>playback_sync\<close> of Alice's
  \<^verbatim>\<open>playback_state\<close> and the \<^verbatim>\<open>seek_sync\<close> of her \<^verbatim>\<open>seek\<close> reach her own socket too.
\<close>

theorem playback_state_reaches_sender:
  "outbox (on_playback_state (js ''s1'') True (Some 42) 2000 joined_ab)
     = outbox joined_ab @ [(ToRoom rid, Ev_playback_sync True 42 (js ''Alice'') 2000)]
   \<and> recipients (on_playback_state (js ''s1'') True (Some 42) 2000 joined_ab) (ToRoom rid)
       = [js ''s1'', js ''s2'']
   \<and> outbox (on_seek (js ''s1'') (Some 42) 2000 joined_ab)
       = outbox joined_ab @ [(ToRoom rid, Ev_seek_sync 42 (js ''Alice'') 2000)]
   \<and> recipients (on_seek (js ''s1'') (Some 42) 2000 joined_ab) (ToRoom rid)
       = [js ''s1'', js ''s2'']"
  by (simp add: playback_state_effect [OF joined_ab_bound] seek_effect [OF joined_ab_bound]
      joined_ab_fields alice_def)

text \<open>
  C8, amended. For every play, pause or seek event that a bound participant sends with a
  position: \<^verbatim>\<open>sync:play\<close>, \<^verbatim>\<open>sync:pause\<close> and \<^verbatim>\<open>sync:seek\<close> emit one event, to the sockets of
  the room except the sender; \<^verbatim>\<open>playback_state\<close> and \<^verbatim>\<open>seek\<close> emit one event, to all the
  sockets of the room, the sender included when it is in the room.
\<close>

theorem playback_broadcast_targets:
  assumes "bound_to w sid = Some (r, user)"
  shows "outbox (on_sync_play sid (Some t) now w) = outbox w @ [(ToRoomExcept r sid, Ev_sync_play t)]
       \<and> outbox (on_sync_pause sid (Some t) now w) = outbox w @ [(ToRoomExcept r sid, Ev_sync_pause t)]
       \<and> outbox (on_sync_seek sid (Some t) now w) = outbox w @ [(ToRoomExcept r sid, Ev_sync_seek t)]
       \<and> set (recipients (on_sync_play sid (Some t) now w) (ToRoomExcept r sid))
           = set (socket_rooms w r) - {sid}
       \<and> set (recipients (on_sync_pause sid (Some t) now w) (ToRoomExcept r sid))
           = set (socket_rooms w r) - {sid}
       \<and> set (recipients (on_sync_seek sid (Some t) now w) (ToRoomExcept r sid))
           = set (socket_rooms w r) - {sid}
       \<and> outbox (on_playback_state sid p (Some t) now w)
           = outbox w @ [(ToRoom r, Ev_playback_sync p t (o_name user) now)]
       \<and> outbox (on_seek sid (Some t) now w)
           = outbox w @ [(ToRoom r, Ev_seek_sync t (o_name user) now)]
       \<and> recipients (on_playback_state sid p (Some t) now w) (ToRoom r) = socket_rooms w r
       \<and> recipients (on_seek sid (Some t) now w) (ToRoom r) = socket_rooms w r"
  by (simp add: sync_play_effect [OF assms] sync_pause_effect [OF assms]
      sync_seek_effect [OF assms] playback_state_effect [OF assms] seek_effect [OF assms])

theorem playback_broadcast_targets_witness:
  "bound_to joined_ab (js ''s1'') = Some (rid, alice)
   \<and> outbox (on_sync_play (js ''s1'') (Some 42) 2000 joined_ab)
       = outbox joined_ab @ [(ToRoomExcept rid (js ''s1''), Ev_sync_play 42)]
   \<and> set (recipients (on_sync_play (js ''s1'') (Some 42) 2000 joined_ab)
            (ToRoomExcept rid (js ''s1''))) = {js ''s2''}
   \<and> recipients (on_playback_state (js ''s1'') True (Some 42) 2000 joined_ab) (ToRoom rid)
       = [js ''s1'', js ''s2'']"
proof -
  have "set (socket_rooms joined_ab rid) - {js ''s1''} = {js ''s2''}"
    by (auto simp: joined_ab_fields js_def)
  then show ?thesis
    using playback_broadcast_targets [OF joined_ab_bound, of 42 2000 True] joined_ab_bound
    by (simp add: joined_ab_fields)
qed

subsection \<open>The cleanup sweep\<close>

lemma fold_del_user_fields [simp]:
  "rooms (fold (del_user r) ks w) = rooms w"
  "ttl (fold (del_user r) ks w) = ttl w"
  "participants (fold (del_user r) ks w) = participants w"
  "messages (fold (del_user r) ks w) = messages w"
  by (induction ks arbitrary: w) simp_all

text \<open>What \<^verbatim>\<open>deleteRoom\<close> removes of the room records and of the membership sets.\<close>

lemma deleteRoom_rooms:
  "map_of (rooms (deleteRoom x w)) r =
     (if r = x \<or> r = x @ js '':participants'' \<or> r = x @ js '':messages'' then None
      else map_of (rooms w) r)"
  by (simp add: deleteRoom_def Let_def delete_conv')

lemma deleteRoom_participants:
  "participants (deleteRoom x w) a =
     (if a = x \<or> x = a @ js '':participants'' then [] else participants w a)"
  by (simp add: deleteRoom_def Let_def)

lemma code_no_colon: "is_room_code x \<Longrightarrow> 58 \<notin> set x"
  by (auto simp: is_room_code_def is_code_char_def list_all_iff)

lemma colon_in_suffix:
  "58 \<in> set (a @ js '':participants'')" "58 \<in> set (a @ js '':messages'')"
  by (simp_all add: js_def)

lemma code_not_suffixed: "is_room_code x \<Longrightarrow> x \<noteq> a @ js '':participants''"
  using code_no_colon [of x] colon_in_suffix(1) [of a] by auto

lemma colon_free_absent: "colon_free w \<Longrightarrow> 58 \<in> set r \<Longrightarrow> map_of (rooms w) r = None"
proof -
  assume "colon_free w" and "58 \<in> set r"
  then have "r \<notin> fst ` set (rooms w)"
    by (auto simp: colon_free_def list_all_iff)
  then show ?thesis by (simp add: map_of_eq_None_iff)
qed

lemma colon_free_delete: "list_all P al \<Longrightarrow> list_all P (AList.delete k al)"
  by (induction al) auto

lemma colon_free_deleteRoom: "colon_free w \<Longrightarrow> colon_free (deleteRoom x w)"
  by (simp add: colon_free_def deleteRoom_def Let_def colon_free_delete)

lemma stale_iff:
  "stale now w r \<longleftrightarrow>
     scard w r = 0
     \<and> (\<exists>rm c. getRoomData w r = Some rm \<and> r_createdAt rm = Some c \<and> now - c > idleTimeout)"
  by (auto simp: stale_def Let_def split: option.splits)

lemma stale_cong:
  "map_of (rooms w') r = map_of (rooms w) r \<Longrightarrow> participants w' r = participants w r
   \<Longrightarrow> stale now w' r = stale now w r"
  using getRoomData_cong [of w' r w] scard_cong [of w' r w] by (simp add: stale_def)

lemma colon_free_cleanup_room: "colon_free w \<Longrightarrow> colon_free (cleanup_room now x w)"
  by (simp add: cleanup_room_def colon_free_deleteRoom)

text \<open>
  In a store without colon in the ids of its records, the round of a room code touches
  no other room's record or membership set.
\<close>

lemma cleanup_room_other:
  assumes "colon_free w" and "is_room_code x" and "r \<noteq> x"
  shows "map_of (rooms (cleanup_room now x w)) r = map_of (rooms w) r"
    and "participants (cleanup_room now x w) r = participants w r"
proof -
  show "map_of (rooms (cleanup_room now x w)) r = map_of (rooms w) r"
    using assms colon_free_absent [OF assms(1), of r] colon_in_suffix [of x]
    by (auto simp: cleanup_room_def deleteRoom_rooms)
  show "participants (cleanup_room now x w) r = participants w r"
    using assms code_not_suffixed [OF assms(2), of r]
    by (simp add: cleanup_room_def deleteRoom_participants)
qed

lemma cleanup_room_self:
  "map_of (rooms (cleanup_room now x w)) x = (if stale now w x then None else map_of (rooms w) x)"
  by (simp add: cleanup_room_def deleteRoom_rooms)

lemma fold_cleanup_rooms:
  "distinct xs \<Longrightarrow> list_all is_room_code xs \<Longrightarrow> colon_free w \<Longrightarrow>
   map_of (rooms (fold (\<lambda>x. cleanup_room (clock x) x) xs w)) r =
     (if r \<in> set xs \<and> stale (clock r) w r then None else map_of (rooms w) r)"
proof (induction xs arbitrary: w)
  case Nil
  show ?case by simp
next
  case (Cons x xs)
  then have dist: "distinct xs" and fresh: "x \<notin> set xs"
    and codes: "list_all is_room_code xs" and code: "is_room_code x"
    by simp_all
  have free: "colon_free (cleanup_room (clock x) x w)"
    using Cons.prems(3) by (rule colon_free_cleanup_room)
  note IH = Cons.IH [OF dist codes free]
  show ?case
  proof (cases "r = x")
    case True
    with fresh IH show ?thesis
      by (simp add: cleanup_room_self)
  next
    case False
    have "stale (clock r) (cleanup_room (clock x) x w) r = stale (clock r) w r"
      by (intro stale_cong cleanup_room_other [OF Cons.prems(3) code False])
    with False IH show ?thesis
      by (simp add: cleanup_room_other [OF Cons.prems(3) code False])
  qed
qed

lemma map_of_keys: "map_of al k \<noteq> None \<longleftrightarrow> k \<in> set (map fst al)"
  by (simp add: map_of_eq_None_iff)

lemma cleanup_rooms:
  assumes "colon_free w"
  shows "map_of (rooms (cleanup clock w)) r =
     (if is_room_code r \<and> stale (clock r) w r then None else map_of (rooms w) r)"
proof -
  define xs where "xs = remdups (filter is_room_code (map fst (rooms w)))"
  have "distinct xs" and "list_all is_room_code xs"
    by (simp_all add: xs_def list_all_iff)
  then have fold: "map_of (rooms (fold (\<lambda>x. cleanup_room (clock x) x) xs w)) r =
     (if r \<in> set xs \<and> stale (clock r) w r then None else map_of (rooms w) r)"
    using assms by (rule fold_cleanup_rooms)
  have "r \<in> set xs \<longleftrightarrow> is_room_code r \<and> map_of (rooms w) r \<noteq> None"
    using map_of_keys [of "rooms w" r] by (auto simp: xs_def)
  with fold show ?thesis
    by (auto simp: cleanup_def Let_def xs_def)
qed

lemma two_rooms_free: "colon_free two_rooms"
  by (simp add: colon_free_def two_rooms_def rid_def lobby_def js_def)

lemma two_rooms_stale: "stale 4000001 two_rooms rid" "stale 4000001 two_rooms lobby"
  by (simp_all add: stale_iff scard_def smembers_def getRoomData_def hgetall_room_def
      two_rooms_def empty_world_def record_of_def truthy_def idleTimeout_def rid_def lobby_def js_def)

text \<open>
  C9, as stated, fails. The sweep runs at time 4000001 on a store with two room records
  and no member. The room \<open>rid\<close> was last synced a millisecond ago, within the idle timeout:
  the sweep deletes it, for it was created more than an hour ago. The room \<^verbatim>\<open>lobby\<close> has
  had no activity for more than an hour: the sweep keeps it, for its id does not match
  the pattern of the room codes.
\<close>

theorem cleanup_reads_createdAt_and_code:
  "scard two_rooms rid = 0
   \<and> h_lastSync (hgetall_room two_rooms rid) = Some 4000000
   \<and> 4000001 - 4000000 \<le> idleTimeout
   \<and> \<not> redis_exists (cleanup at_4000001 two_rooms) rid
   \<and> scard two_rooms lobby = 0
   \<and> h_lastSync (hgetall_room two_rooms lobby) = Some 0
   \<and> 4000001 - 0 > idleTimeout
   \<and> redis_exists two_rooms lobby
   \<and> redis_exists (cleanup at_4000001 two_rooms) lobby"
proof -
  have code: "is_room_code rid" "\<not> is_room_code lobby"
    by (simp_all add: is_room_code_def is_code_char_def rid_def lobby_def js_def)
  have before: "scard two_rooms rid = 0" "scard two_rooms lobby = 0"
    "h_lastSync (hgetall_room two_rooms rid) = Some 4000000"
    "h_lastSync (hgetall_room two_rooms lobby) = Some 0"
    "redis_exists two_rooms lobby"
    by (simp_all add: scard_def smembers_def hgetall_room_def redis_exists_def two_rooms_def
        empty_world_def record_of_def rid_def lobby_def js_def)
  have after: "\<not> redis_exists (cleanup at_4000001 two_rooms) rid"
    "redis_exists (cleanup at_4000001 two_rooms) lobby"
    using code two_rooms_stale before(5)
    by (simp_all add: redis_exists_def cleanup_rooms [OF two_rooms_free] at_4000001_def)
  from before after show ?thesis by (simp add: idleTimeout_def)
qed

text \<open>
  C9, amended. In a store in which no room record has an id with a colon, the sweep
  deletes exactly the room records whose id is a room code (six characters of \<^verbatim>\<open>A-Z\<close> and
  \<^verbatim>\<open>0-9\<close>), whose membership set is empty, whose record has an id and a creation time, and
  whose age since creation (not since the last activity), at the time the sweep reads in
  the round of that room, exceeds the idle timeout; every other room record stays, and
  none appears.
\<close>

theorem cleanup_deletes_exactly:
  assumes "colon_free w"
  shows "redis_exists (cleanup clock w) r \<longleftrightarrow>
     redis_exists w r
     \<and> \<not> (is_room_code r \<and> scard w r = 0
           \<and> (\<exists>rm c. getRoomData w r = Some rm \<and> r_createdAt rm = Some c
                 \<and> clock r - c > idleTimeout))"
  unfolding redis_exists_def cleanup_rooms [OF assms] stale_iff by auto

theorem cleanup_deletes_exactly_witness:
  "colon_free two_rooms
   \<and> \<not> redis_exists (cleanup at_4000001 two_rooms) rid
   \<and> redis_exists (cleanup at_4000001 two_rooms) lobby"
proof -
  have code: "is_room_code rid" "\<not> is_room_code lobby"
    by (simp_all add: is_room_code_def is_code_char_def rid_def lobby_def js_def)
  have lobby: "redis_exists two_rooms lobby"
    by (simp add: redis_exists_def two_rooms_def rid_def lobby_def js_def)
  show ?thesis
    using cleanup_deletes_exactly [OF two_rooms_free, of at_4000001 rid]
      cleanup_deletes_exactly [OF two_rooms_free, of at_4000001 lobby]
      two_rooms_free code lobby two_rooms_stale
    by (simp add: stale_iff at_4000001_def)
qed

text \<open>
  The hypothesis is needed. The DEL of \<^verbatim>\<open>room:ABCDEF:messages\<close>, by which \<^verbatim>\<open>deleteRoom\<close>
  removes the message list of the room \<^verbatim>\<open>ABCDEF\<close>, removes the record of the room
  \<^verbatim>\<open>ABCDEF:messages\<close> too, which \<^verbatim>\<open>room:join\<close> may have written: the sweep never visits that
  room, whose id is no room code, and its record is gone after the sweep.
\<close>

lemma cleanup_deletes_shadowed_record:
  "\<not> colon_free shadowed
   \<and> \<not> is_room_code (js ''ABCDEF:messages'')
   \<and> redis_exists shadowed (js ''ABCDEF:messages'')
   \<and> \<not> redis_exists (cleanup at_4000001 shadowed) (js ''ABCDEF:messages'')"
proof -
  have ids: "remdups (filter is_room_code (map fst (rooms shadowed))) = [js ''ABCDEF'']"
    by (simp add: shadowed_def empty_world_def is_room_code_def is_code_char_def js_def)
  have stale: "stale 4000001 shadowed (js ''ABCDEF'')"
    by (simp add: stale_iff scard_def smembers_def getRoomData_def hgetall_room_def
        shadowed_def empty_world_def record_of_def truthy_def idleTimeout_def js_def)
  have "cleanup at_4000001 shadowed = deleteRoom (js ''ABCDEF'') shadowed"
    by (simp add: cleanup_def Let_def ids cleanup_room_def stale at_4000001_def)
  moreover have "js ''ABCDEF:messages'' = js ''ABCDEF'' @ js '':messages''"
    by (simp add: js_def)
  ultimately have gone:
    "\<not> redis_exists (cleanup at_4000001 shadowed) (js ''ABCDEF:messages'')"
    by (simp add: redis_exists_def deleteRoom_rooms)
  have "\<not> colon_free shadowed" "\<not> is_room_code (js ''ABCDEF:messages'')"
    "redis_exists shadowed (js ''ABCDEF:messages'')"
    by (simp_all add: colon_free_def is_room_code_def redis_exists_def shadowed_def
        empty_world_def js_def)
  with gone show ?thesis by blast
qed

subsection \<open>User hashes are stored under their id\<close>

lemma keyed_users: "users w' = users w \<Longrightarrow> keyed w \<Longrightarrow> keyed w'"
  by (simp add: keyed_def)

lemma keyed_frame [simp]:
  "keyed (hmset_room r upd w) = keyed w"
  "keyed (expire r s w) = keyed w"
  "keyed (del_room r w) = keyed w"
  "keyed (sadd r m w) = keyed w"
  "keyed (srem r m w) = keyed w"
  "keyed (del_participants r w) = keyed w"
  "keyed (rpush r msg w) = keyed w"
  "keyed (ltrim r n w) = keyed w"
  "keyed (del_messages r w) = keyed w"
  "keyed (socket_join sid r w) = keyed w"
  "keyed (socket_leave sid r w) = keyed w"
  "keyed (emit t e w) = keyed w"
  "keyed (set_conn sid c w) = keyed w"
  by (simp_all add: keyed_def)

lemma keyed_hmset_user: "keyed w \<Longrightarrow> u_id h = k \<Longrightarrow> keyed (hmset_user r k h w)"
  by (simp add: keyed_def)

lemma keyed_del_user: "keyed w \<Longrightarrow> keyed (del_user r k w)"
  by (auto simp: keyed_def split: if_splits)

lemma keyed_hset_user_isHost: "keyed w \<Longrightarrow> keyed (hset_user_isHost r k w)"
  by (auto simp: keyed_def)

lemma keyed_fold_del_user: "keyed w \<Longrightarrow> keyed (fold (del_user r) ks w)"
  by (induction ks arbitrary: w) (simp_all add: keyed_del_user)

lemma keyed_deleteRoom: "keyed w \<Longrightarrow> keyed (deleteRoom r w)"
  by (simp add: deleteRoom_def Let_def keyed_fold_del_user)

lemma keyed_assign_new_host: "keyed w \<Longrightarrow> keyed (assign_new_host r user w)"
  by (simp add: assign_new_host_def Let_def keyed_hset_user_isHost
      split: option.splits list.splits)

lemma keyed_handleLeaveRoom: "keyed w \<Longrightarrow> keyed (handleLeaveRoom sid uuid now w)"
proof (cases "bound_to w sid")
  case None
  assume "keyed w"
  with None show ?thesis by (simp add: handleLeaveRoom_def)
next
  case (Some b)
  assume k: "keyed w"
  obtain r user where b: "b = (r, user)" by (cases b)
  define w3 where "w3 = socket_leave sid r (del_user r (o_id user) (srem r (o_id user) w))"
  have k3: "keyed w3" using k by (simp add: w3_def keyed_del_user)
  have del: "keyed (deleteRoom r w3)" using k3 by (rule keyed_deleteRoom)
  have stay: "keyed (assign_new_host r user (emit t e w3))" for t e
    using k3 by (intro keyed_assign_new_host) simp
  show ?thesis
    using Some b del stay
    by (simp add: handleLeaveRoom_def Let_def w3_def)
qed

lemma keyed_on_room_join: "keyed w \<Longrightarrow> keyed (on_room_join sid data now w)"
proof (cases "j_user data")
  case None
  assume "keyed w"
  with None show ?thesis by (simp add: on_room_join_def Let_def)
next
  case (Some u)
  assume k: "keyed w"
  have "data = \<lparr>j_roomId = j_roomId data, j_user = Some u\<rparr>"
    using Some by simp
  then have "users (on_room_join sid data now w) =
     (users w)((j_roomId data, o_id u) \<mapsto> user_record u (o_avatar u) sid now (o_isHost u))"
    using on_room_join_users [of sid "j_roomId data" u now w] by simp
  with k show ?thesis by (simp add: keyed_def user_record_def)
qed

lemma keyed_on_join_room: "keyed w \<Longrightarrow> keyed (on_join_room sid data now w)"
  by (auto simp: on_join_room_def Let_def user_record_def split: option.splits
      intro!: keyed_hmset_user)

lemma keyed_cleanup: "keyed w \<Longrightarrow> keyed (cleanup clock w)"
proof -
  have "keyed w \<Longrightarrow> keyed (fold (\<lambda>x. cleanup_room (clock x) x) xs w)" for xs
    by (induction xs arbitrary: w) (simp_all add: cleanup_room_def keyed_deleteRoom)
  then show "keyed w \<Longrightarrow> keyed (cleanup clock w)"
    by (simp add: cleanup_def Let_def)
qed

lemma keyed_step: "keyed w \<Longrightarrow> keyed (step x w)"
proof (cases x)
  case (Join_room sid data now)
  assume "keyed w" with Join_room show ?thesis by (simp add: keyed_on_join_room)
next
  case (Room_join sid data now)
  assume "keyed w" with Room_join show ?thesis by (simp add: keyed_on_room_join)
next
  case (Leave sid uuid now)
  assume "keyed w" with Leave show ?thesis by (simp add: keyed_handleLeaveRoom)
next
  case (Media_change sid data uuid now)
  have "users (on_media_change sid data uuid now w) = users w"
    by (simp add: on_media_change_def Let_def split: option.splits prod.splits)
  moreover assume "keyed w"
  ultimately show ?thesis using Media_change by (simp add: keyed_def)
next
  case (Ns_media_change sid data)
  have "users (on_ns_media_change sid data w) = users w"
    by (simp add: on_ns_media_change_def Let_def)
  moreover assume "keyed w"
  ultimately show ?thesis using Ns_media_change by (simp add: keyed_def)
next
  case (Playback_state sid p t now)
  have "users (on_playback_state sid p t now w) = users w"
    by (simp add: on_playback_state_def Let_def split: option.splits prod.splits)
  moreover assume "keyed w"
  ultimately show ?thesis using Playback_state by (simp add: keyed_def)
next
  case (Seek sid t now)
  have "users (on_seek sid t now w) = users w"
    by (simp add: on_seek_def Let_def split: option.splits prod.splits)
  moreover assume "keyed w"
  ultimately show ?thesis using Seek by (simp add: keyed_def)
next
  case (Sync_play sid t now)
  have "users (on_sync_play sid t now w) = users w"
    by (simp add: on_sync_play_def Let_def split: option.splits prod.splits)
  moreover assume "keyed w"
  ultimately show ?thesis using Sync_play by (simp add: keyed_def)
next
  case (Sync_pause sid t now)
  have "users (on_sync_pause sid t now w) = users w"
    by (simp add: on_sync_pause_def Let_def split: option.splits prod.splits)
  moreover assume "keyed w"
  ultimately show ?thesis using Sync_pause by (simp add: keyed_def)
next
  case (Sync_seek sid t now)
  have "users (on_sync_seek sid t now w) = users w"
    by (simp add: on_sync_seek_def Let_def split: option.splits prod.splits)
  moreover assume "keyed w"
  ultimately show ?thesis using Sync_seek by (simp add: keyed_def)
next
  case (Chat_message sid t uuid now)
  have "users (on_chat_message sid t uuid now w) = users w"
    by (simp add: on_chat_message_def Let_def split: option.splits prod.splits)
  moreover assume "keyed w"
  ultimately show ?thesis using Chat_message by (simp add: keyed_def)
next
  case (Ns_chat_message sid data)
  have "users (on_ns_chat_message sid data w) = users w"
    by (simp add: on_ns_chat_message_def Let_def)
  moreover assume "keyed w"
  ultimately show ?thesis using Ns_chat_message by (simp add: keyed_def)
next
  case (Cleanup clock)
  assume "keyed w" with Cleanup show ?thesis by (simp add: keyed_cleanup)
qed

lemma keyed_run: "keyed (run ops empty_world)"
proof -
  have "keyed w \<Longrightarrow> keyed (run ops w)" for w
    unfolding run_def by (induction ops arbitrary: w) (simp_all add: keyed_step)
  moreover have "keyed empty_world"
    by (simp add: keyed_def empty_world_def)
  ultimately show ?thesis by blast
qed

end
